theory Spec2Isabelle
  imports Complex_Main
begin

section \<open>The host document\<close>

text \<open>
  The module \<^verbatim>\<open>client/src/lib/drag.ts\<close> keeps its state in module-level variables and
  works on the browser's document. The document is the part of the host the module
  touches: the node tree, the attributes, the inline style, the rectangles and the hit
  test of the layout engine, the selector parser, and the listener list of every
  element.

  Elements are object references, modelled as numbers. A node is an \<^verbatim>\<open>HTMLElement\<close> with
  its child nodes, or any other node (text, comment), which is what
  \<^verbatim>\<open>instanceof HTMLElement\<close> tells apart. A document is the list of the document node's
  children. JavaScript numbers are kept abstract: the type \<open>'n\<close> only has to provide
  subtraction, division and numerals, so nothing proved below relies on a law of
  arithmetic that IEEE doubles lack.
\<close>

type_synonym elem = nat

datatype node = HTMLElement elem "node list" | OtherNode nat

datatype 'n css_value = Px 'n | Keyword string

record 'n dom_rect =
  rect_x :: 'n
  rect_y :: 'n
  rect_width :: 'n
  rect_height :: 'n

datatype handler = DragStart | DragEnd | DragMove

record 'n dom =
  document :: "node list"
  attributes :: "elem \<Rightarrow> string list"
  style :: "elem \<Rightarrow> string \<rightharpoonup> 'n css_value"
  boundingClientRect :: "elem \<Rightarrow> 'n dom_rect"
  hit_test :: "(elem \<Rightarrow> string \<rightharpoonup> 'n css_value) \<Rightarrow> 'n \<Rightarrow> 'n \<Rightarrow> elem option"
  selector_parses :: "string \<Rightarrow> bool"
  body :: "elem option"
  listeners :: "elem \<Rightarrow> (string \<times> handler) list"

text \<open>
  \<open>boundingClientRect\<close> is what \<^verbatim>\<open>getBoundingClientRect\<close> returns now, and
  \<open>hit_test d sty x y\<close> is the topmost element the layout engine finds at a point when
  the inline styles are \<open>sty\<close>. Both belong to the layout engine and may change at any
  time; which element an inline declaration hides is the engine's matter (a style sheet
  can outweigh it), so nothing is assumed about the hit test. \<open>selector_parses d a\<close> says
  whether the host's parser accepts the selector \<^verbatim>\<open>[a]\<close>, and \<open>body\<close> is
  \<^verbatim>\<open>document.body\<close>, which is null while the document has no body element.
\<close>

fun elems :: "node list \<Rightarrow> elem list" where
  "elems [] = []"
| "elems (OtherNode k # ts) = elems ts"
| "elems (HTMLElement a cs # ts) = a # elems cs @ elems ts"

text \<open>The inclusive ancestors of an element, nearest first; empty when it is not in the
  forest.\<close>

fun ancestors_of :: "node list \<Rightarrow> elem \<Rightarrow> elem list" where
  "ancestors_of [] e = []"
| "ancestors_of (OtherNode k # ts) e = ancestors_of ts e"
| "ancestors_of (HTMLElement a cs # ts) e =
     (if a = e then [a]
      else (case ancestors_of cs e of
              [] \<Rightarrow> ancestors_of ts e
            | p # ps \<Rightarrow> (p # ps) @ [a]))"

fun find_node :: "node list \<Rightarrow> elem \<Rightarrow> node option" where
  "find_node [] e = None"
| "find_node (OtherNode k # ts) e = find_node ts e"
| "find_node (HTMLElement a cs # ts) e =
     (if a = e then Some (HTMLElement a cs)
      else (case find_node cs e of
              None \<Rightarrow> find_node ts e
            | Some n \<Rightarrow> Some n))"

fun remove_node :: "elem \<Rightarrow> node list \<Rightarrow> node list" where
  "remove_node e [] = []"
| "remove_node e (OtherNode k # ts) = OtherNode k # remove_node e ts"
| "remove_node e (HTMLElement a cs # ts) =
     (if a = e then remove_node e ts
      else HTMLElement a (remove_node e cs) # remove_node e ts)"

fun add_last_child :: "elem \<Rightarrow> node \<Rightarrow> node list \<Rightarrow> node list" where
  "add_last_child z n [] = []"
| "add_last_child z n (OtherNode k # ts) = OtherNode k # add_last_child z n ts"
| "add_last_child z n (HTMLElement a cs # ts) =
     (if a = z then HTMLElement a (cs @ [n]) # ts
      else HTMLElement a (add_last_child z n cs) # add_last_child z n ts)"

definition children_of :: "node list \<Rightarrow> elem \<Rightarrow> node list" where
  "children_of ts e = (case find_node ts e of Some (HTMLElement a cs) \<Rightarrow> cs | _ \<Rightarrow> [])"

definition parent_of :: "node list \<Rightarrow> elem \<Rightarrow> elem option" where
  "parent_of ts e = (case ancestors_of ts e of a # p # ps \<Rightarrow> Some p | _ \<Rightarrow> None)"

datatype error = HierarchyRequestError | SyntaxError | TypeError

text \<open>
  \<^verbatim>\<open>parent.appendChild(child)\<close>: the host refuses a child that is an inclusive ancestor
  of the parent; otherwise it takes the child, with its subtree, out of its place and
  makes it the last child of the parent. A child that is not in the document is known to
  the model without its subtree.
\<close>

definition appendChild :: "node list \<Rightarrow> elem \<Rightarrow> elem \<Rightarrow> error + node list" where
  "appendChild ts parent child =
     (if child \<in> set (ancestors_of ts parent) then Inl HierarchyRequestError
      else (case find_node ts child of
              Some n \<Rightarrow> Inr (add_last_child parent n (remove_node child ts))
            | None \<Rightarrow> Inr (add_last_child parent (HTMLElement child []) ts)))"

definition hasAttribute :: "'n dom \<Rightarrow> elem \<Rightarrow> string \<Rightarrow> bool" where
  "hasAttribute d e a = (a \<in> set (attributes d e))"

text \<open>
  \<^verbatim>\<open>querySelectorAll("[a]")\<close>: the elements of the document bearing the attribute, in
  document order; a \<^verbatim>\<open>SyntaxError\<close> when the selector does not parse.
\<close>

definition querySelectorAll :: "'n dom \<Rightarrow> string \<Rightarrow> error + elem list" where
  "querySelectorAll d a =
     (if selector_parses d a
      then Inr (filter (\<lambda>e. hasAttribute d e a) (elems (document d)))
      else Inl SyntaxError)"

text \<open>
  The nearest inclusive ancestor bearing the attribute, and \<^verbatim>\<open>el.closest("[a]")\<close>,
  which returns it, or throws a \<^verbatim>\<open>SyntaxError\<close> when the selector does not parse.
\<close>

definition marked_ancestor :: "'n dom \<Rightarrow> elem \<Rightarrow> string \<Rightarrow> elem option" where
  "marked_ancestor d el a = find (\<lambda>b. hasAttribute d b a) (ancestors_of (document d) el)"

definition closest :: "'n dom \<Rightarrow> elem \<Rightarrow> string \<Rightarrow> error + elem option" where
  "closest d el a =
     (if selector_parses d a then Inr (marked_ancestor d el a) else Inl SyntaxError)"

text \<open>\<^verbatim>\<open>document.elementFromPoint(x, y)\<close>: the hit test on the inline styles as they
  are.\<close>

definition elementFromPoint :: "'n dom \<Rightarrow> 'n \<Rightarrow> 'n \<Rightarrow> elem option" where
  "elementFromPoint d px py = hit_test d (style d) px py"

text \<open>\<^verbatim>\<open>addEventListener\<close> keeps one entry for each pair of event type and callback: adding
  a pair that is present does nothing.\<close>

definition addEventListener :: "elem \<Rightarrow> string \<Rightarrow> handler \<Rightarrow> 'n dom \<Rightarrow> 'n dom" where
  "addEventListener e ty h d =
     (if (ty, h) \<in> set (listeners d e) then d
      else d\<lparr>listeners := (listeners d)(e := listeners d e @ [(ty, h)])\<rparr>)"

text \<open>
  An assignment to \<^verbatim>\<open>el.style.prop\<close> stores the declaration. The host's check of the
  value is not modelled: the values the module assigns are lengths in pixels and the
  keywords \<^verbatim>\<open>absolute\<close>, \<^verbatim>\<open>none\<close> and \<^verbatim>\<open>visible\<close>. (A browser ignores \<^verbatim>\<open>visible\<close> as
  a value of \<^verbatim>\<open>display\<close>; nothing below depends on the \<^verbatim>\<open>display\<close> declaration that
  \<^verbatim>\<open>dragEnd\<close> leaves.)
\<close>

definition set_style :: "elem \<Rightarrow> string \<Rightarrow> 'n css_value \<Rightarrow> 'n dom \<Rightarrow> 'n dom" where
  "set_style e p v d = d\<lparr>style := (style d)(e := (style d e)(p \<mapsto> v))\<rparr>"

text \<open>\<^verbatim>\<open>el.style.cssText = ""\<close> removes every inline declaration of the element.\<close>

definition clear_cssText :: "elem \<Rightarrow> 'n dom \<Rightarrow> 'n dom" where
  "clear_cssText e d = d\<lparr>style := (style d)(e := Map.empty)\<rparr>"

section \<open>The module state\<close>

type_synonym drag_callback = nat
type_synonym drop_callback = nat

record 'n position =
  pos_x :: 'n
  pos_y :: 'n

record drag_options =
  opt_draggableAttribute :: "string option"
  opt_dropzoneAttribute :: "string option"
  opt_dragMoveCallback :: "drag_callback option"
  opt_dragStartCallback :: "drag_callback option"
  opt_dragEndCallback :: "drop_callback option"

record 'n mouse_event =
  clientX :: 'n
  clientY :: 'n
  currentTarget :: elem
  target :: elem

record mutation_record =
  addedNodes :: "node list"

text \<open>
  What the module does to the outside is kept in a trace, each entry with the document as
  it was at that moment: the calls of the consumer's callbacks, \<^verbatim>\<open>preventDefault\<close> and
  \<^verbatim>\<open>console.warn\<close>. The consumer's callbacks are opaque: the trace records that they
  were called, with which arguments and on which document.
\<close>

datatype call =
    PreventDefault
  | ConsoleWarn string
  | DragStartCall drag_callback elem
  | DragMoveCall drag_callback elem
  | DragEndCall drop_callback elem elem

record 'n world =
  observer :: "nat option"
  dragElement :: "elem option"
  dragElementRect :: "'n dom_rect option"
  dragMoveCallback :: "drag_callback option"
  dragStartCallback :: "drag_callback option"
  dragEndCallback :: "drop_callback option"
  dropzoneAttribute :: "string option"
  draggableAttribute :: "string option"
  startingMousePosition :: "'n position option"
  isMouseDown :: bool
  isDragging :: bool
  host :: "'n dom"
  observers_created :: nat
  subscriptions :: "nat list"
  trace :: "(call \<times> 'n dom) list"
  uncaught :: "error list"

text \<open>
  \<open>observers_created\<close> counts the \<^verbatim>\<open>MutationObserver\<close> objects made so far, which
  numbers them; \<open>subscriptions\<close> are the observers registered on \<^verbatim>\<open>document.body\<close>,
  oldest first. \<open>uncaught\<close> are the exceptions that left a function of the module:
  the function ends where it throws, with the state as it is there. (The host reports
  an exception that leaves a listener; one that leaves \<^verbatim>\<open>configureDragAndDrop\<close>
  reaches the caller.)
\<close>

definition log_call :: "call \<Rightarrow> 'n world \<Rightarrow> 'n world" where
  "log_call c w = w\<lparr>trace := trace w @ [(c, host w)]\<rparr>"

definition on_host :: "('n dom \<Rightarrow> 'n dom) \<Rightarrow> 'n world \<Rightarrow> 'n world" where
  "on_host f w = w\<lparr>host := f (host w)\<rparr>"

text \<open>The text of \<^verbatim>\<open>${a}\<close> and of a \<^verbatim>\<open>null\<close> passed for a string.\<close>

definition attr_name :: "string option \<Rightarrow> string" where
  "attr_name a = (case a of None \<Rightarrow> ''null'' | Some s \<Rightarrow> s)"

definition truthy_string :: "string option \<Rightarrow> bool" where
  "truthy_string a = (case a of None \<Rightarrow> False | Some s \<Rightarrow> s \<noteq> [])"

section \<open>The functions of the module\<close>

text \<open>Lines 93 to 97.\<close>

definition addEventListeners :: "elem \<Rightarrow> 'n dom \<Rightarrow> 'n dom" where
  "addEventListeners element d =
     addEventListener element ''mousemove'' DragMove
       (addEventListener element ''mouseup'' DragEnd
         (addEventListener element ''mousedown'' DragStart d))"

text \<open>
  Lines 38 to 74. \<^verbatim>\<open>querySelectorAll\<close> throws when the selector of the draggable marker
  does not parse, and \<^verbatim>\<open>observe\<close> throws a \<^verbatim>\<open>TypeError\<close> when \<^verbatim>\<open>document.body\<close> is
  null, after the new observer was assigned to the module variable.
\<close>

definition configureDragAndDrop :: "drag_options \<Rightarrow> 'n world \<Rightarrow> 'n world" where
  "configureDragAndDrop dragOptions w =
     (let w1 = (if opt_dragMoveCallback dragOptions \<noteq> None
                then w\<lparr>dragMoveCallback := opt_dragMoveCallback dragOptions\<rparr> else w);
          w2 = (if opt_dragStartCallback dragOptions \<noteq> None
                then w1\<lparr>dragStartCallback := opt_dragStartCallback dragOptions\<rparr> else w1);
          w3 = (if opt_dragEndCallback dragOptions \<noteq> None
                then w2\<lparr>dragEndCallback := opt_dragEndCallback dragOptions\<rparr> else w2);
          w4 = (if truthy_string (opt_dropzoneAttribute dragOptions)
                then w3\<lparr>dropzoneAttribute := opt_dropzoneAttribute dragOptions\<rparr> else w3);
          w5 = (if truthy_string (opt_draggableAttribute dragOptions)
                then w4\<lparr>draggableAttribute := opt_draggableAttribute dragOptions\<rparr> else w4)
      in case querySelectorAll (host w5) (attr_name (draggableAttribute w5)) of
           Inl err \<Rightarrow> w5\<lparr>uncaught := uncaught w5 @ [err]\<rparr>
         | Inr elements \<Rightarrow>
             (let w6 = (if elements = []
                        then log_call (ConsoleWarn (''No elements with '' @ [CHR 0x27]
                                @ attr_name (draggableAttribute w5) @ [CHR 0x27]
                                @ '' in the DOM'')) w5
                        else w5);
                  w7 = on_host (fold addEventListeners elements) w6;
                  new_observer = observers_created w7;
                  w8 = w7\<lparr>observers_created := Suc new_observer,
                           observer := Some new_observer\<rparr>
              in case body (host w8) of
                   None \<Rightarrow> w8\<lparr>uncaught := uncaught w8 @ [TypeError]\<rparr>
                 | Some b \<Rightarrow> w8\<lparr>subscriptions := subscriptions w8 @ [new_observer]\<rparr>))"

text \<open>Lines 76 to 91: the inner loop over the added nodes of one record, then the
  loop over the records.\<close>

fun mutation_nodes :: "string \<Rightarrow> node list \<Rightarrow> 'n dom \<Rightarrow> 'n dom" where
  "mutation_nodes a [] d = d"
| "mutation_nodes a (HTMLElement e cs # ns) d =
     mutation_nodes a ns (if hasAttribute d e a then addEventListeners e d else d)"
| "mutation_nodes a (OtherNode k # ns) d = mutation_nodes a ns d"

definition mutationCallback :: "mutation_record list \<Rightarrow> 'n world \<Rightarrow> 'n world" where
  "mutationCallback records w =
     on_host (fold (\<lambda>record. mutation_nodes (attr_name (draggableAttribute w))
                                (addedNodes record)) records) w"

text \<open>Lines 161 to 170.\<close>

definition moveElementToCursor ::
  "elem \<Rightarrow> 'n dom_rect \<Rightarrow> 'n mouse_event \<Rightarrow> ('n::{minus,inverse,numeral}) dom \<Rightarrow> 'n dom" where
  "moveElementToCursor element rect mouseEvent d =
     (let px = clientX mouseEvent - rect_width rect / 2;
          py = clientY mouseEvent - rect_height rect / 2
      in set_style element ''left'' (Px px) (set_style element ''top'' (Px py) d))"

text \<open>Lines 99 to 113.\<close>

definition dragStart :: "'n mouse_event \<Rightarrow> ('n::{minus,inverse,numeral}) world \<Rightarrow> 'n world" where
  "dragStart event w =
     (let w1 = log_call PreventDefault (w\<lparr>isDragging := False, isMouseDown := True\<rparr>);
          el = currentTarget event;
          rect = boundingClientRect (host w1) el;
          w2 = w1\<lparr>dragElement := Some el, dragElementRect := Some rect\<rparr>;
          w3 = (case dragStartCallback w2 of
                  Some cb \<Rightarrow> log_call (DragStartCall cb el) w2
                | None \<Rightarrow> w2);
          w4 = on_host (set_style el ''width'' (Px (rect_width rect))) w3;
          w5 = on_host (set_style el ''height'' (Px (rect_height rect))) w4;
          w6 = w5\<lparr>startingMousePosition :=
                    Some \<lparr>pos_x = clientX event, pos_y = clientY event\<rparr>\<rparr>;
          w7 = on_host (moveElementToCursor el rect event) w6
      in on_host (set_style el ''position'' (Keyword ''absolute'')) w7)"

text \<open>
  Lines 130 to 140, the part of \<^verbatim>\<open>dragEnd\<close> between the hit test and the cleanup.
  \<^verbatim>\<open>closest\<close> and \<^verbatim>\<open>appendChild\<close> are the calls in it that can throw; an exception
  leaves the handler there, so the cleanup is not reached.
\<close>

definition drop_on :: "elem \<Rightarrow> elem option \<Rightarrow> 'n world \<Rightarrow> error + 'n world" where
  "drop_on el elUnderCursor w =
     (case elUnderCursor of
        None \<Rightarrow> Inr w
      | Some hit \<Rightarrow>
          (case closest (host w) hit (attr_name (dropzoneAttribute w)) of
             Inl err \<Rightarrow> Inl err
           | Inr None \<Rightarrow> Inr w
           | Inr (Some dropzoneElement) \<Rightarrow>
               (case appendChild (document (host w)) dropzoneElement el of
                  Inl err \<Rightarrow> Inl err
                | Inr doc \<Rightarrow>
                    (let w1 = on_host (\<lambda>d. d\<lparr>document := doc\<rparr>) w
                     in Inr (case dragEndCallback w1 of
                               Some cb \<Rightarrow> log_call (DragEndCall cb el dropzoneElement) w1
                             | None \<Rightarrow> w1)))))"

text \<open>Lines 115 to 145.\<close>

definition dragEnd :: "'n mouse_event \<Rightarrow> 'n world \<Rightarrow> 'n world" where
  "dragEnd event w =
     (let w1 = log_call PreventDefault (w\<lparr>isMouseDown := False\<rparr>)
      in case dragElement w1 of
           None \<Rightarrow> w1
         | Some el \<Rightarrow>
             (let w2 = on_host (set_style el ''display'' (Keyword ''none'')) w1;
                  elUnderCursor =
                    elementFromPoint (host w2) (clientX event) (clientY event);
                  w3 = on_host (set_style el ''display'' (Keyword ''visible'')) w2
              in case drop_on el elUnderCursor w3 of
                   Inl err \<Rightarrow> w3\<lparr>uncaught := uncaught w3 @ [err]\<rparr>
                 | Inr w4 \<Rightarrow>
                     (on_host (clear_cssText el) w4)
                       \<lparr>dragElement := None, dragElementRect := None,
                        startingMousePosition := None\<rparr>))"

text \<open>Lines 147 to 159.\<close>

definition dragMove :: "'n mouse_event \<Rightarrow> ('n::{minus,inverse,numeral}) world \<Rightarrow> 'n world" where
  "dragMove event w =
     (case (dragElement w, dragElementRect w) of
        (Some el, Some rect) \<Rightarrow>
          (if isMouseDown w
           then (let w1 = w\<lparr>isDragging := True\<rparr>;
                     w2 = on_host (moveElementToCursor el rect event) w1
                 in case dragMoveCallback w2 of
                      Some cb \<Rightarrow> log_call (DragMoveCall cb el) w2
                    | None \<Rightarrow> w2)
           else w)
      | _ \<Rightarrow> w)"

section \<open>Event dispatch\<close>

text \<open>
  The listeners are registered without the capture flag, so the host runs them at the
  target and then at each ancestor in turn (the event bubbles; the module never stops
  the propagation). At each element the registered listeners of the event's type run in
  the order of registration, with that element as \<^verbatim>\<open>currentTarget\<close>.
\<close>

definition handle ::
  "handler \<Rightarrow> 'n mouse_event \<Rightarrow> ('n::{minus,inverse,numeral}) world \<Rightarrow> 'n world" where
  "handle h event w =
     (case h of DragStart \<Rightarrow> dragStart event w
              | DragEnd \<Rightarrow> dragEnd event w
              | DragMove \<Rightarrow> dragMove event w)"

definition invoke_listeners ::
  "string \<Rightarrow> 'n mouse_event \<Rightarrow> elem \<Rightarrow> ('n::{minus,inverse,numeral}) world \<Rightarrow> 'n world" where
  "invoke_listeners ty event a w =
     fold (\<lambda>l s. if fst l = ty then handle (snd l) (event\<lparr>currentTarget := a\<rparr>) s else s)
       (listeners (host w) a) w"

definition dispatchEvent ::
  "string \<Rightarrow> 'n mouse_event \<Rightarrow> ('n::{minus,inverse,numeral}) world \<Rightarrow> 'n world" where
  "dispatchEvent ty event w =
     fold (invoke_listeners ty event) (ancestors_of (document (host w)) (target event)) w"

section \<open>Runs of the module\<close>

text \<open>
  What can happen to the module, one input at a time: a call of the exported function, a
  batch of mutation records delivered to the watcher, a handler called with a mouse
  event, or any change of the document made by the layout engine or by other scripts.
\<close>

datatype 'n input =
    Configure drag_options
  | Mutations "mutation_record list"
  | MouseDown "'n mouse_event"
  | MouseUp "'n mouse_event"
  | MouseMove "'n mouse_event"
  | HostChange "'n dom \<Rightarrow> 'n dom"

fun step :: "('n::{minus,inverse,numeral}) input \<Rightarrow> 'n world \<Rightarrow> 'n world" where
  "step (Configure dragOptions) w = configureDragAndDrop dragOptions w"
| "step (Mutations records) w = mutationCallback records w"
| "step (MouseDown event) w = dragStart event w"
| "step (MouseUp event) w = dragEnd event w"
| "step (MouseMove event) w = dragMove event w"
| "step (HostChange f) w = on_host f w"

definition run :: "('n::{minus,inverse,numeral}) input list \<Rightarrow> 'n world \<Rightarrow> 'n world" where
  "run inputs w = fold step inputs w"

fun is_press :: "'n input \<Rightarrow> bool" where
  "is_press (MouseDown event) = True"
| "is_press _ = False"

fun is_release :: "'n input \<Rightarrow> bool" where
  "is_release (MouseUp event) = True"
| "is_release _ = False"

fun is_configure :: "'n input \<Rightarrow> bool" where
  "is_configure (Configure dragOptions) = True"
| "is_configure _ = False"

section \<open>Notions the properties are stated with\<close>

definition lastChild :: "node list \<Rightarrow> elem \<Rightarrow> node option" where
  "lastChild ts e = (case children_of ts e of [] \<Rightarrow> None | c # cs \<Rightarrow> Some (last (c # cs)))"

text \<open>
  What \<^verbatim>\<open>dragEnd\<close> meets at the pointer (lines 124 to 133): the element the hit test
  returns after the dragged element was given \<^verbatim>\<open>display: none\<close>, and its nearest
  inclusive ancestor bearing the dropzone marker.
\<close>

definition hit_at :: "elem \<Rightarrow> 'n mouse_event \<Rightarrow> 'n world \<Rightarrow> elem option" where
  "hit_at el event w =
     elementFromPoint (set_style el ''display'' (Keyword ''none'') (host w))
       (clientX event) (clientY event)"

definition dropzone_at :: "elem \<Rightarrow> 'n mouse_event \<Rightarrow> 'n world \<Rightarrow> elem option" where
  "dropzone_at el event w =
     (case hit_at el event w of
        None \<Rightarrow> None
      | Some hit \<Rightarrow> marked_ancestor (host w) hit (attr_name (dropzoneAttribute w)))"

text \<open>
  The exception a host call of \<^verbatim>\<open>dragEnd\<close> throws, if any: \<^verbatim>\<open>closest\<close> is called when
  the hit test found an element and throws when the selector of the dropzone marker does
  not parse; \<^verbatim>\<open>appendChild\<close> throws when the dropzone found is the dragged element or
  lies inside it.
\<close>

definition drop_error :: "elem \<Rightarrow> 'n mouse_event \<Rightarrow> 'n world \<Rightarrow> error option" where
  "drop_error el event w =
     (case hit_at el event w of
        None \<Rightarrow> None
      | Some hit \<Rightarrow>
          (if \<not> selector_parses (host w) (attr_name (dropzoneAttribute w))
           then Some SyntaxError
           else (case dropzone_at el event w of
                   None \<Rightarrow> None
                 | Some z \<Rightarrow>
                     (if el \<in> set (ancestors_of (document (host w)) z)
                      then Some HierarchyRequestError else None))))"

text \<open>The dropzone found at the pointer that can take the dragged element: the selector
  parses and the dropzone is neither the dragged element nor inside it.\<close>

definition drop_target :: "elem \<Rightarrow> 'n mouse_event \<Rightarrow> 'n world \<Rightarrow> elem option" where
  "drop_target el event w =
     (case dropzone_at el event w of
        None \<Rightarrow> None
      | Some z \<Rightarrow>
          (if selector_parses (host w) (attr_name (dropzoneAttribute w)) \<and>
              el \<notin> set (ancestors_of (document (host w)) z)
           then Some z else None))"

text \<open>The state \<^verbatim>\<open>dragEnd\<close> is in after line 129, before \<^verbatim>\<open>closest\<close> is called.\<close>

definition after_hit_test :: "elem \<Rightarrow> 'n world \<Rightarrow> 'n world" where
  "after_hit_test el w =
     on_host (set_style el ''display'' (Keyword ''visible''))
       (on_host (set_style el ''display'' (Keyword ''none''))
          (log_call PreventDefault (w\<lparr>isMouseDown := False\<rparr>)))"

text \<open>The state \<^verbatim>\<open>configureDragAndDrop\<close> is in after line 53, before
  \<^verbatim>\<open>querySelectorAll\<close> is called.\<close>

definition after_assignments :: "drag_options \<Rightarrow> 'n world \<Rightarrow> 'n world" where
  "after_assignments dragOptions w =
     (let w1 = (if opt_dragMoveCallback dragOptions \<noteq> None
                then w\<lparr>dragMoveCallback := opt_dragMoveCallback dragOptions\<rparr> else w);
          w2 = (if opt_dragStartCallback dragOptions \<noteq> None
                then w1\<lparr>dragStartCallback := opt_dragStartCallback dragOptions\<rparr> else w1);
          w3 = (if opt_dragEndCallback dragOptions \<noteq> None
                then w2\<lparr>dragEndCallback := opt_dragEndCallback dragOptions\<rparr> else w2);
          w4 = (if truthy_string (opt_dropzoneAttribute dragOptions)
                then w3\<lparr>dropzoneAttribute := opt_dropzoneAttribute dragOptions\<rparr> else w3)
      in if truthy_string (opt_draggableAttribute dragOptions)
         then w4\<lparr>draggableAttribute := opt_draggableAttribute dragOptions\<rparr> else w4)"

text \<open>The configuration calls of a run that return without an exception.\<close>

fun completed_configures ::
  "('n::{minus,inverse,numeral}) input list \<Rightarrow> 'n world \<Rightarrow> nat" where
  "completed_configures [] w = 0"
| "completed_configures (i # inputs) w =
     (if is_configure i \<and> uncaught (step i w) = uncaught w then 1 else 0)
       + completed_configures inputs (step i w)"

text \<open>The inline properties \<^verbatim>\<open>dragStart\<close> and \<^verbatim>\<open>moveElementToCursor\<close> assign.\<close>

definition drag_properties :: "string list" where
  "drag_properties = [''width'', ''height'', ''top'', ''left'', ''position'']"

text \<open>A listener list after \<^verbatim>\<open>addEventListener\<close>, and after \<^verbatim>\<open>addEventListeners\<close>.\<close>

definition with_listener ::
  "string \<Rightarrow> handler \<Rightarrow> (string \<times> handler) list \<Rightarrow> (string \<times> handler) list" where
  "with_listener ty h ls = (if (ty, h) \<in> set ls then ls else ls @ [(ty, h)])"

definition drag_listeners :: "(string \<times> handler) list \<Rightarrow> (string \<times> handler) list" where
  "drag_listeners ls =
     with_listener ''mousemove'' DragMove
       (with_listener ''mouseup'' DragEnd (with_listener ''mousedown'' DragStart ls))"



text \<open>The elements on the path of an event that have the module's press listener,
  in the order the event reaches them.\<close>

definition tracked_on_path :: "'n mouse_event \<Rightarrow> 'n world \<Rightarrow> elem list" where
  "tracked_on_path event w =
     filter (\<lambda>a. (''mousedown'', DragStart) \<in> set (listeners (host w) a))
       (ancestors_of (document (host w)) (target event))"

text \<open>While the pointer is pressed there is a drag subject with its rectangle.\<close>

definition pressed_has_subject :: "'n world \<Rightarrow> bool" where
  "pressed_has_subject w =
     (isMouseDown w \<longrightarrow> dragElement w \<noteq> None \<and> dragElementRect w \<noteq> None)"

text \<open>The press listeners of an element, and the elements whose only press listener, if
  any, is the module's.\<close>

definition press_listeners :: "'n world \<Rightarrow> elem \<Rightarrow> (string \<times> handler) list" where
  "press_listeners w a = filter (\<lambda>l. fst l = ''mousedown'') (listeners (host w) a)"

definition press_tracking_only :: "'n world \<Rightarrow> elem \<Rightarrow> bool" where
  "press_tracking_only w a =
     (press_listeners w a = [] \<or> press_listeners w a = [(''mousedown'', DragStart)])"


section \<open>An example document\<close>

text \<open>
  The scenario of the specification: element 1 bears \<^verbatim>\<open>data-drag\<close> and has a 50 by 50
  rectangle centred at (100, 100); element 2 bears \<^verbatim>\<open>data-drop\<close> and contains
  element 3; element 5 lies inside element 1, element 4 beside them. Left of 300 the
  pointer is over 1, 3, 2 and 0, right of it, up to 500, over 1, 4 and 0, and the hit
  test skips an element with the inline declaration \<^verbatim>\<open>display: none\<close>. Element 6 is a
  tile, 50 by 50 and centred at (550, 100), that bears both markers; a style sheet gives
  it \<^verbatim>\<open>display: block !important\<close>, which outweighs the inline declaration, so right of
  500 the hit test finds 6 whatever its inline style is. The parser refuses a selector whose name is empty or starts with
  a digit. Elements 12 and 13 bear the marker and are not in the document yet.
\<close>

definition demo_hit_test ::
  "(elem \<Rightarrow> string \<rightharpoonup> real css_value) \<Rightarrow> real \<Rightarrow> real \<Rightarrow> elem option" where
  "demo_hit_test sty px py =
     (if px < 300
        then find (\<lambda>e. sty e ''display'' \<noteq> Some (Keyword ''none'')) [1, 3, 2, 0]
      else if px < 500
        then find (\<lambda>e. sty e ''display'' \<noteq> Some (Keyword ''none'')) [1, 4, 0]
      else Some 6)"

definition demo_parses :: "string \<Rightarrow> bool" where
  "demo_parses a = (case a of [] \<Rightarrow> False | c # cs \<Rightarrow> c \<notin> set ''0123456789'')"

definition demo_dom :: "real dom" where
  "demo_dom =
     \<lparr>document = [HTMLElement 0 [HTMLElement 1 [OtherNode 0, HTMLElement 5 []],
                                 HTMLElement 2 [HTMLElement 3 []],
                                 HTMLElement 4 [],
                                 HTMLElement 6 []]],
      attributes = (\<lambda>e. if e = 1 \<or> e = 12 \<or> e = 13 then [''data-drag'']
                         else if e = 2 then [''data-drop'']
                         else if e = 6 then [''data-drag'', ''data-drop''] else []),
      style = (\<lambda>e. if e = 1 then [''color'' \<mapsto> Keyword ''red''] else Map.empty),
      boundingClientRect =
        (\<lambda>e. if e = 6
             then \<lparr>rect_x = 525, rect_y = 75, rect_width = 50, rect_height = 50\<rparr>
             else \<lparr>rect_x = 75, rect_y = 75, rect_width = 50, rect_height = 50\<rparr>),
      hit_test = demo_hit_test,
      selector_parses = demo_parses,
      body = Some 0,
      listeners = (\<lambda>e. [])\<rparr>"

definition initial_world :: "real world" where
  "initial_world =
     \<lparr>observer = None, dragElement = None, dragElementRect = None,
      dragMoveCallback = None, dragStartCallback = None, dragEndCallback = None,
      dropzoneAttribute = None, draggableAttribute = None,
      startingMousePosition = None, isMouseDown = False, isDragging = False,
      host = demo_dom, observers_created = 0, subscriptions = [], trace = [],
      uncaught = []\<rparr>"

definition demo_options :: drag_options where
  "demo_options =
     \<lparr>opt_draggableAttribute = Some ''data-drag'',
      opt_dropzoneAttribute = Some ''data-drop'',
      opt_dragMoveCallback = Some 11,
      opt_dragStartCallback = Some 12,
      opt_dragEndCallback = Some 13\<rparr>"

definition demo_partial_options :: drag_options where
  "demo_partial_options =
     \<lparr>opt_draggableAttribute = Some [],
      opt_dropzoneAttribute = Some ''data-zone'',
      opt_dragMoveCallback = None,
      opt_dragStartCallback = Some 22,
      opt_dragEndCallback = None\<rparr>"

definition demo_unparsable_options :: drag_options where
  "demo_unparsable_options =
     \<lparr>opt_draggableAttribute = None,
      opt_dropzoneAttribute = Some ''1x'',
      opt_dragMoveCallback = None,
      opt_dragStartCallback = None,
      opt_dragEndCallback = None\<rparr>"

definition demo_unparsable_drag_options :: drag_options where
  "demo_unparsable_drag_options =
     \<lparr>opt_draggableAttribute = Some ''1x'',
      opt_dropzoneAttribute = None,
      opt_dragMoveCallback = None,
      opt_dragStartCallback = None,
      opt_dragEndCallback = None\<rparr>"

definition demo_configured :: "real world" where
  "demo_configured = configureDragAndDrop demo_options initial_world"

definition demo_press :: "real mouse_event" where
  "demo_press = \<lparr>clientX = 100, clientY = 100, currentTarget = 1, target = 1\<rparr>"

definition demo_press_inside :: "real mouse_event" where
  "demo_press_inside = \<lparr>clientX = 100, clientY = 100, currentTarget = 5, target = 5\<rparr>"

definition demo_move :: "real mouse_event" where
  "demo_move = \<lparr>clientX = 200, clientY = 200, currentTarget = 1, target = 1\<rparr>"

definition demo_release :: "real mouse_event" where
  "demo_release = \<lparr>clientX = 200, clientY = 200, currentTarget = 1, target = 1\<rparr>"

definition demo_release_outside :: "real mouse_event" where
  "demo_release_outside = \<lparr>clientX = 400, clientY = 200, currentTarget = 1, target = 1\<rparr>"

definition demo_press_tile :: "real mouse_event" where
  "demo_press_tile = \<lparr>clientX = 550, clientY = 100, currentTarget = 6, target = 6\<rparr>"

definition demo_release_tile :: "real mouse_event" where
  "demo_release_tile = \<lparr>clientX = 560, clientY = 100, currentTarget = 6, target = 6\<rparr>"

definition demo_relayout :: "real dom \<Rightarrow> real dom" where
  "demo_relayout d =
     d\<lparr>boundingClientRect :=
          (\<lambda>e. \<lparr>rect_x = 0, rect_y = 0, rect_width = 10, rect_height = 10\<rparr>)\<rparr>"

definition demo_between :: "real input list" where
  "demo_between = [MouseMove demo_press, Configure demo_options, HostChange demo_relayout]"

definition demo_afterwards :: "real input list" where
  "demo_afterwards = [MouseMove demo_move, MouseUp demo_release, Configure demo_options]"

definition demo_dragging :: "real world" where
  "demo_dragging = dragMove demo_move (dragStart demo_press demo_configured)"

definition demo_dragging_tile :: "real world" where
  "demo_dragging_tile = dragMove demo_release_tile (dragStart demo_press_tile demo_configured)"

definition demo_reconfigured :: "real world" where
  "demo_reconfigured = configureDragAndDrop demo_unparsable_options demo_configured"

definition demo_dragging_unparsable :: "real world" where
  "demo_dragging_unparsable = dragMove demo_move (dragStart demo_press demo_reconfigured)"

definition demo_no_body :: "real world" where
  "demo_no_body = on_host (\<lambda>d. d\<lparr>body := None\<rparr>) initial_world"


section \<open>Facts about the node tree\<close>

lemma ancestors_of_subset_elems: "set (ancestors_of ts e) \<subseteq> set (elems ts)"
  by (induction ts e rule: ancestors_of.induct) (auto split: list.splits)

lemma ancestors_of_empty_iff: "ancestors_of ts e = [] \<longleftrightarrow> e \<notin> set (elems ts)"
  by (induction ts e rule: ancestors_of.induct) (auto split: list.splits)

lemma ancestors_of_hd_self: "ancestors_of ts e \<noteq> [] \<Longrightarrow> hd (ancestors_of ts e) = e"
  by (induction ts e rule: ancestors_of.induct) (simp_all split: list.splits if_splits)

lemma ancestors_of_hd: "ancestors_of ts e = p # ps \<Longrightarrow> p = e"
  using ancestors_of_hd_self[of ts e] by simp

lemma ancestors_of_append:
  "ancestors_of (xs @ ys) e = (case ancestors_of xs e of [] \<Rightarrow> ancestors_of ys e | p # ps \<Rightarrow> p # ps)"
  by (induction xs e rule: ancestors_of.induct) (auto split: list.splits)

lemma elems_remove_node: "e \<notin> set (elems (remove_node e ts))"
  by (induction e ts rule: remove_node.induct) auto

lemma ancestors_of_remove_node:
  "e \<notin> set (ancestors_of ts z) \<Longrightarrow> ancestors_of (remove_node e ts) z = ancestors_of ts z"
  by (induction ts z rule: ancestors_of.induct) (auto split: list.splits if_splits)

lemma add_last_child_absent: "z \<notin> set (elems ts) \<Longrightarrow> add_last_child z n ts = ts"
  by (induction z n ts rule: add_last_child.induct) auto

lemma ancestors_of_add_last_child:
  "z \<in> set (elems ts) \<Longrightarrow> e \<notin> set (elems ts) \<Longrightarrow>
     ancestors_of (add_last_child z (HTMLElement e cs') ts) e = e # ancestors_of ts z"
proof (induction z "HTMLElement e cs'" ts rule: add_last_child.induct)
  case (1 z)
  then show ?case by simp
next
  case (2 z k ts)
  then show ?case by simp
next
  case (3 z a cs ts)
  show ?case
  proof (cases "a = z")
    case True
    with 3 show ?thesis
      by (simp add: ancestors_of_append ancestors_of_empty_iff[THEN iffD2])
  next
    case False
    show ?thesis
    proof (cases "z \<in> set (elems cs)")
      case True
      then obtain q qs where "ancestors_of cs z = q # qs"
        using ancestors_of_empty_iff[of cs z] by (cases "ancestors_of cs z") auto
      with 3 False True show ?thesis by simp
    next
      case zc: False
      with 3 False show ?thesis
        by (simp add: add_last_child_absent ancestors_of_empty_iff[THEN iffD2])
    qed
  qed
qed

lemma find_node_None_iff: "find_node ts e = None \<longleftrightarrow> e \<notin> set (elems ts)"
  by (induction ts e rule: find_node.induct) (auto split: option.splits)

lemma find_node_root: "find_node ts e = Some n \<Longrightarrow> \<exists>cs. n = HTMLElement e cs"
  by (induction ts e rule: find_node.induct) (auto split: option.splits if_splits)

lemma find_node_add_last_child:
  "find_node ts z = Some (HTMLElement z cs) \<Longrightarrow>
     find_node (add_last_child z n ts) z = Some (HTMLElement z (cs @ [n]))"
proof (induction z n ts rule: add_last_child.induct)
  case (1 z n)
  then show ?case by simp
next
  case (2 z n k ts)
  then show ?case by simp
next
  case (3 z n a cs0 ts)
  show ?case
  proof (cases "a = z")
    case True
    with 3 show ?thesis by simp
  next
    case False
    show ?thesis
    proof (cases "find_node cs0 z")
      case None
      then have "z \<notin> set (elems cs0)" by (simp add: find_node_None_iff)
      with 3 False None show ?thesis by (simp add: add_last_child_absent)
    next
      case (Some m)
      with 3 False show ?thesis by simp
    qed
  qed
qed

section \<open>Facts about the host functions\<close>

lemmas host_defs = on_host_def log_call_def set_style_def clear_cssText_def

lemma marked_ancestor_is_ancestor:
  "marked_ancestor d h a = Some z \<Longrightarrow> z \<in> set (ancestors_of (document d) h)"
  by (auto simp: marked_ancestor_def find_Some_iff)

lemma marked_ancestor_style_irrelevant:
  "document d' = document d \<Longrightarrow> attributes d' = attributes d \<Longrightarrow>
   marked_ancestor d' h a = marked_ancestor d h a"
  by (simp add: marked_ancestor_def hasAttribute_def)

lemma appendChild_ok:
  assumes "child \<notin> set (ancestors_of ts parent)"
  shows "\<exists>cs. appendChild ts parent child =
           Inr (add_last_child parent (HTMLElement child cs) (remove_node child ts))"
proof (cases "find_node ts child")
  case None
  then have "child \<notin> set (elems ts)" by (simp add: find_node_None_iff)
  then have "remove_node child ts = ts"
    by (induction child ts rule: remove_node.induct) auto
  with assms None show ?thesis by (auto simp: appendChild_def)
next
  case (Some n)
  then obtain cs where "n = HTMLElement child cs" using find_node_root by blast
  with assms Some show ?thesis by (auto simp: appendChild_def)
qed

lemma appended_parent:
  assumes "parent \<in> set (elems ts)" and "child \<notin> set (ancestors_of ts parent)"
  shows "parent_of (add_last_child parent (HTMLElement child cs) (remove_node child ts)) child
           = Some parent"
proof -
  let ?r = "remove_node child ts"
  have anc: "ancestors_of ?r parent = ancestors_of ts parent"
    using assms(2) by (rule ancestors_of_remove_node)
  from assms(1) obtain p ps where p: "ancestors_of ts parent = p # ps"
    using ancestors_of_empty_iff[of ts parent] by (cases "ancestors_of ts parent") auto
  then have pp: "p = parent" by (rule ancestors_of_hd)
  have "parent \<in> set (elems ?r)"
    using anc p ancestors_of_empty_iff[of ?r parent] by auto
  then have "ancestors_of (add_last_child parent (HTMLElement child cs) ?r) child
               = child # ancestors_of ?r parent"
    by (rule ancestors_of_add_last_child) (rule elems_remove_node)
  with anc p pp show ?thesis by (simp add: parent_of_def)
qed

lemma appended_lastChild:
  assumes "parent \<in> set (elems ts)" and "child \<notin> set (ancestors_of ts parent)"
  shows "lastChild (add_last_child parent n (remove_node child ts)) parent = Some n"
proof -
  let ?r = "remove_node child ts"
  have "ancestors_of ?r parent = ancestors_of ts parent"
    using assms(2) by (rule ancestors_of_remove_node)
  with assms(1) have "parent \<in> set (elems ?r)"
    using ancestors_of_empty_iff[of ?r parent] ancestors_of_empty_iff[of ts parent] by auto
  then obtain m where m: "find_node ?r parent = Some m"
    using find_node_None_iff[of ?r parent] by (cases "find_node ?r parent") auto
  then obtain cs where "m = HTMLElement parent cs" using find_node_root by blast
  with m have "find_node (add_last_child parent n ?r) parent = Some (HTMLElement parent (cs @ [n]))"
    by (simp add: find_node_add_last_child)
  then show ?thesis by (cases cs) (simp_all add: lastChild_def children_of_def)
qed

lemma addEventListener_alt:
  "addEventListener e ty h d = d\<lparr>listeners := (listeners d)(e := with_listener ty h (listeners d e))\<rparr>"
  by (simp add: addEventListener_def with_listener_def)

lemma addEventListeners_alt:
  "addEventListeners e d = d\<lparr>listeners := (listeners d)(e := drag_listeners (listeners d e))\<rparr>"
  by (simp add: addEventListeners_def addEventListener_alt drag_listeners_def)






lemma fold_addEventListeners_frame:
  "fold addEventListeners es d = d\<lparr>listeners := listeners (fold addEventListeners es d)\<rparr>"
proof (induction es arbitrary: d)
  case Nil
  then show ?case by simp
next
  case (Cons e es)
  from Cons[of "addEventListeners e d"] show ?case
    by (simp add: addEventListeners_alt)
qed

section \<open>Facts about the handlers\<close>

lemma after_hit_test_frame:
  "document (host (after_hit_test el w)) = document (host w) \<and>
   selector_parses (host (after_hit_test el w)) = selector_parses (host w) \<and>
   dropzoneAttribute (after_hit_test el w) = dropzoneAttribute w \<and>
   dragEndCallback (after_hit_test el w) = dragEndCallback w \<and>
   uncaught (after_hit_test el w) = uncaught w \<and>
   trace (after_hit_test el w) = trace w @ [(PreventDefault, host w)] \<and>
   dragElement (after_hit_test el w) = dragElement w \<and>
   dragElementRect (after_hit_test el w) = dragElementRect w \<and>
   startingMousePosition (after_hit_test el w) = startingMousePosition w \<and>
   marked_ancestor (host (after_hit_test el w)) h a = marked_ancestor (host w) h a"
  by (simp add: after_hit_test_def host_defs marked_ancestor_def hasAttribute_def)

lemma after_hit_test_style:
  "style (host (after_hit_test el w)) e p =
     (if e = el \<and> p = ''display'' then Some (Keyword ''visible'') else style (host w) e p)"
  by (simp add: after_hit_test_def host_defs)

lemma drop_target_cases:
  "drop_target el event w =
     (case drop_error el event w of Some err \<Rightarrow> None | None \<Rightarrow> dropzone_at el event w)"
  by (auto simp: drop_target_def drop_error_def dropzone_at_def split: option.splits)

lemma drop_on_throws:
  "drop_error el event w = Some err \<Longrightarrow>
   drop_on el (hit_at el event w) (after_hit_test el w) = Inl err"
  by (auto simp: drop_error_def dropzone_at_def drop_on_def closest_def appendChild_def
        after_hit_test_frame split: option.splits if_splits)

lemma drop_on_nothing:
  "drop_error el event w = None \<Longrightarrow> dropzone_at el event w = None \<Longrightarrow>
   drop_on el (hit_at el event w) (after_hit_test el w) = Inr (after_hit_test el w)"
  by (auto simp: drop_error_def dropzone_at_def drop_on_def closest_def
        after_hit_test_frame split: option.splits if_splits)

lemma drop_on_drops:
  assumes ok: "drop_error el event w = None" and zone: "dropzone_at el event w = Some z"
  shows "\<exists>cs. drop_on el (hit_at el event w) (after_hit_test el w) =
           Inr (case dragEndCallback w of
                  Some cb \<Rightarrow>
                    log_call (DragEndCall cb el z)
                      (on_host (\<lambda>d. d\<lparr>document := add_last_child z (HTMLElement el cs)
                                       (remove_node el (document (host w)))\<rparr>)
                         (after_hit_test el w))
                | None \<Rightarrow>
                    on_host (\<lambda>d. d\<lparr>document := add_last_child z (HTMLElement el cs)
                                     (remove_node el (document (host w)))\<rparr>)
                      (after_hit_test el w))"
    and "z \<in> set (elems (document (host w)))"
    and "el \<notin> set (ancestors_of (document (host w)) z)"
proof -
  from zone obtain h where h: "hit_at el event w = Some h"
    and m: "marked_ancestor (host w) h (attr_name (dropzoneAttribute w)) = Some z"
    by (auto simp: dropzone_at_def split: option.splits)
  from ok h zone have parses: "selector_parses (host w) (attr_name (dropzoneAttribute w))"
    and notin: "el \<notin> set (ancestors_of (document (host w)) z)"
    by (auto simp: drop_error_def split: if_splits)
  show "el \<notin> set (ancestors_of (document (host w)) z)" by (rule notin)
  from m have "z \<in> set (ancestors_of (document (host w)) h)"
    by (rule marked_ancestor_is_ancestor)
  then show "z \<in> set (elems (document (host w)))"
    using ancestors_of_subset_elems by blast
  from appendChild_ok[OF notin] obtain cs where
    "appendChild (document (host w)) z el =
       Inr (add_last_child z (HTMLElement el cs) (remove_node el (document (host w))))" ..
  with h m parses show "\<exists>cs. drop_on el (hit_at el event w) (after_hit_test el w) =
           Inr (case dragEndCallback w of
                  Some cb \<Rightarrow>
                    log_call (DragEndCall cb el z)
                      (on_host (\<lambda>d. d\<lparr>document := add_last_child z (HTMLElement el cs)
                                       (remove_node el (document (host w)))\<rparr>)
                         (after_hit_test el w))
                | None \<Rightarrow>
                    on_host (\<lambda>d. d\<lparr>document := add_last_child z (HTMLElement el cs)
                                     (remove_node el (document (host w)))\<rparr>)
                      (after_hit_test el w))"
    by (auto simp: drop_on_def closest_def Let_def after_hit_test_frame on_host_def
          split: option.splits)
qed

lemma dragEnd_unfold:
  assumes "dragElement w = Some el"
  shows "dragEnd event w =
     (case drop_on el (hit_at el event w) (after_hit_test el w) of
        Inl err \<Rightarrow> (after_hit_test el w)\<lparr>uncaught := uncaught (after_hit_test el w) @ [err]\<rparr>
      | Inr w4 \<Rightarrow> (on_host (clear_cssText el) w4)
                    \<lparr>dragElement := None, dragElementRect := None,
                     startingMousePosition := None\<rparr>)"
  using assms
  by (simp add: dragEnd_def Let_def hit_at_def after_hit_test_def log_call_def on_host_def
        cong: sum.case_cong)

text \<open>The three ways \<^verbatim>\<open>dragEnd\<close> ends when there is a drag subject.\<close>

lemma dragEnd_throws:
  assumes "dragElement w = Some el" and "drop_error el event w = Some err"
  shows "dragEnd event w = (after_hit_test el w)\<lparr>uncaught := uncaught w @ [err]\<rparr>"
  by (simp add: dragEnd_unfold[OF assms(1)] drop_on_throws[OF assms(2)] after_hit_test_frame)

lemma dragEnd_nothing:
  assumes "dragElement w = Some el" and "drop_error el event w = None"
    and "dropzone_at el event w = None"
  shows "dragEnd event w =
           (on_host (clear_cssText el) (after_hit_test el w))
             \<lparr>dragElement := None, dragElementRect := None, startingMousePosition := None\<rparr>"
  by (simp add: dragEnd_unfold[OF assms(1)] drop_on_nothing[OF assms(2,3)])

lemma dragEnd_drops:
  assumes "dragElement w = Some el" and "drop_error el event w = None"
    and "dropzone_at el event w = Some z"
  shows "\<exists>cs. dragEnd event w =
           (on_host (clear_cssText el)
              (case dragEndCallback w of
                 Some cb \<Rightarrow>
                   log_call (DragEndCall cb el z)
                     (on_host (\<lambda>d. d\<lparr>document := add_last_child z (HTMLElement el cs)
                                      (remove_node el (document (host w)))\<rparr>)
                        (after_hit_test el w))
               | None \<Rightarrow>
                   on_host (\<lambda>d. d\<lparr>document := add_last_child z (HTMLElement el cs)
                                    (remove_node el (document (host w)))\<rparr>)
                     (after_hit_test el w)))
             \<lparr>dragElement := None, dragElementRect := None, startingMousePosition := None\<rparr>"
proof -
  from drop_on_drops(1)[OF assms(2,3)] obtain cs where
    "drop_on el (hit_at el event w) (after_hit_test el w) =
           Inr (case dragEndCallback w of
                  Some cb \<Rightarrow>
                    log_call (DragEndCall cb el z)
                      (on_host (\<lambda>d. d\<lparr>document := add_last_child z (HTMLElement el cs)
                                       (remove_node el (document (host w)))\<rparr>)
                         (after_hit_test el w))
                | None \<Rightarrow>
                    on_host (\<lambda>d. d\<lparr>document := add_last_child z (HTMLElement el cs)
                                     (remove_node el (document (host w)))\<rparr>)
                      (after_hit_test el w))" ..
  then show ?thesis by (auto simp: dragEnd_unfold[OF assms(1)])
qed

text \<open>When no host call throws, \<^verbatim>\<open>dragEnd\<close> reaches its cleanup; when one throws, it
  ends before it.\<close>

lemma dragEnd_cleanup:
  assumes "dragElement w = Some el" and "drop_error el event w = None"
  shows "dragElement (dragEnd event w) = None \<and>
         dragElementRect (dragEnd event w) = None \<and>
         startingMousePosition (dragEnd event w) = None \<and>
         style (host (dragEnd event w)) el = Map.empty \<and>
         uncaught (dragEnd event w) = uncaught w"
proof (cases "dropzone_at el event w")
  case None
  show ?thesis
    unfolding dragEnd_nothing[OF assms None]
    by (simp add: on_host_def clear_cssText_def after_hit_test_frame)
next
  case (Some z)
  from dragEnd_drops[OF assms Some] obtain cs where e: "dragEnd event w =
           (on_host (clear_cssText el)
              (case dragEndCallback w of
                 Some cb \<Rightarrow>
                   log_call (DragEndCall cb el z)
                     (on_host (\<lambda>d. d\<lparr>document := add_last_child z (HTMLElement el cs)
                                      (remove_node el (document (host w)))\<rparr>)
                        (after_hit_test el w))
               | None \<Rightarrow>
                   on_host (\<lambda>d. d\<lparr>document := add_last_child z (HTMLElement el cs)
                                    (remove_node el (document (host w)))\<rparr>)
                     (after_hit_test el w)))
             \<lparr>dragElement := None, dragElementRect := None, startingMousePosition := None\<rparr>" ..
  show ?thesis
    unfolding e
    by (simp add: on_host_def log_call_def clear_cssText_def after_hit_test_frame
          split: option.splits)
qed

lemma dragEnd_interrupted:
  assumes "dragElement w = Some el" and "drop_error el event w = Some err"
  shows "dragElement (dragEnd event w) = Some el \<and>
         dragElementRect (dragEnd event w) = dragElementRect w \<and>
         startingMousePosition (dragEnd event w) = startingMousePosition w \<and>
         uncaught (dragEnd event w) = uncaught w @ [err] \<and>
         document (host (dragEnd event w)) = document (host w) \<and>
         map fst (trace (dragEnd event w)) = map fst (trace w) @ [PreventDefault] \<and>
         (p \<noteq> ''display'' \<longrightarrow> style (host (dragEnd event w)) el p = style (host w) el p)"
  unfolding dragEnd_throws[OF assms]
  using assms(1) by (simp add: after_hit_test_frame after_hit_test_style)

lemma configure_unfold:
  "configureDragAndDrop opts w =
     (case querySelectorAll (host (after_assignments opts w))
             (attr_name (draggableAttribute (after_assignments opts w))) of
        Inl err \<Rightarrow>
          (after_assignments opts w)\<lparr>uncaught := uncaught (after_assignments opts w) @ [err]\<rparr>
      | Inr elements \<Rightarrow>
          (let w6 = (if elements = []
                     then log_call (ConsoleWarn (''No elements with '' @ [CHR 0x27]
                             @ attr_name (draggableAttribute (after_assignments opts w))
                             @ [CHR 0x27] @ '' in the DOM'')) (after_assignments opts w)
                     else after_assignments opts w);
               w7 = on_host (fold addEventListeners elements) w6;
               new_observer = observers_created w7;
               w8 = w7\<lparr>observers_created := Suc new_observer,
                        observer := Some new_observer\<rparr>
           in case body (host w8) of
                None \<Rightarrow> w8\<lparr>uncaught := uncaught w8 @ [TypeError]\<rparr>
              | Some b \<Rightarrow> w8\<lparr>subscriptions := subscriptions w8 @ [new_observer]\<rparr>))"
  by (simp only: configureDragAndDrop_def after_assignments_def Let_def)

lemma after_assignments_frame:
  "isMouseDown (after_assignments opts w) = isMouseDown w \<and>
   dragElement (after_assignments opts w) = dragElement w \<and>
   dragElementRect (after_assignments opts w) = dragElementRect w \<and>
   isDragging (after_assignments opts w) = isDragging w \<and>
   host (after_assignments opts w) = host w \<and>
   uncaught (after_assignments opts w) = uncaught w \<and>
   subscriptions (after_assignments opts w) = subscriptions w \<and>
   observers_created (after_assignments opts w) = observers_created w"
  by (simp add: after_assignments_def Let_def)

lemma after_assignments_fields:
  "dragMoveCallback (after_assignments opts w) =
     (if opt_dragMoveCallback opts \<noteq> None then opt_dragMoveCallback opts
      else dragMoveCallback w) \<and>
   dragStartCallback (after_assignments opts w) =
     (if opt_dragStartCallback opts \<noteq> None then opt_dragStartCallback opts
      else dragStartCallback w) \<and>
   dragEndCallback (after_assignments opts w) =
     (if opt_dragEndCallback opts \<noteq> None then opt_dragEndCallback opts
      else dragEndCallback w) \<and>
   dropzoneAttribute (after_assignments opts w) =
     (if truthy_string (opt_dropzoneAttribute opts) then opt_dropzoneAttribute opts
      else dropzoneAttribute w) \<and>
   draggableAttribute (after_assignments opts w) =
     (if truthy_string (opt_draggableAttribute opts) then opt_draggableAttribute opts
      else draggableAttribute w)"
  by (simp add: after_assignments_def Let_def)

lemma configure_keeps_assignments:
  "dragMoveCallback (configureDragAndDrop opts w) = dragMoveCallback (after_assignments opts w) \<and>
   dragStartCallback (configureDragAndDrop opts w) = dragStartCallback (after_assignments opts w) \<and>
   dragEndCallback (configureDragAndDrop opts w) = dragEndCallback (after_assignments opts w) \<and>
   dropzoneAttribute (configureDragAndDrop opts w) = dropzoneAttribute (after_assignments opts w) \<and>
   draggableAttribute (configureDragAndDrop opts w) = draggableAttribute (after_assignments opts w)"
  by (simp add: configure_unfold Let_def on_host_def log_call_def
        split: sum.splits option.splits)

lemma configure_session:
  "isMouseDown (configureDragAndDrop opts w) = isMouseDown w \<and>
   dragElement (configureDragAndDrop opts w) = dragElement w \<and>
   dragElementRect (configureDragAndDrop opts w) = dragElementRect w \<and>
   isDragging (configureDragAndDrop opts w) = isDragging w"
  by (simp add: configure_unfold Let_def on_host_def log_call_def after_assignments_frame
        split: sum.splits option.splits)

lemma dragMove_session:
  "isMouseDown (dragMove event w) = isMouseDown w \<and>
   dragElement (dragMove event w) = dragElement w \<and>
   dragElementRect (dragMove event w) = dragElementRect w"
  by (simp add: dragMove_def Let_def on_host_def log_call_def split: option.splits)

lemma dragEnd_released: "\<not> isMouseDown (dragEnd event w)"
  by (simp add: dragEnd_def Let_def drop_on_def closest_def appendChild_def on_host_def
        log_call_def split: option.splits sum.splits)

lemma dragEnd_isDragging: "isDragging (dragEnd event w) = isDragging w"
  by (simp add: dragEnd_def Let_def drop_on_def closest_def appendChild_def on_host_def
        log_call_def split: option.splits sum.splits)

lemma dragEnd_subscriptions:
  "subscriptions (dragEnd event w) = subscriptions w \<and> observer (dragEnd event w) = observer w"
  by (simp add: dragEnd_def Let_def drop_on_def closest_def appendChild_def on_host_def
        log_call_def split: option.splits sum.splits)

lemma dragEnd_style_other:
  "dragElement w \<noteq> Some e \<Longrightarrow> style (host (dragEnd event w)) e = style (host w) e"
  by (auto simp: dragEnd_def Let_def drop_on_def closest_def appendChild_def host_defs
        split: option.splits sum.splits)

lemma dragStart_session:
  "isMouseDown (dragStart event w) \<and>
   dragElement (dragStart event w) = Some (currentTarget event) \<and>
   dragElementRect (dragStart event w) =
     Some (boundingClientRect (host w) (currentTarget event)) \<and>
   \<not> isDragging (dragStart event w)"
  by (simp add: dragStart_def Let_def on_host_def log_call_def split: option.splits)

lemma dragStart_placed:
  "style (host (dragStart event w)) (currentTarget event) ''left'' =
     Some (Px (clientX event - rect_width (boundingClientRect (host w) (currentTarget event)) / 2)) \<and>
   style (host (dragStart event w)) (currentTarget event) ''top'' =
     Some (Px (clientY event - rect_height (boundingClientRect (host w) (currentTarget event)) / 2))"
  by (simp add: dragStart_def Let_def host_defs moveElementToCursor_def split: option.splits)

lemma dragStart_listeners:
  "listeners (host (dragStart event w)) = listeners (host w)"
  by (simp add: dragStart_def Let_def host_defs moveElementToCursor_def split: option.splits)

lemma dragStart_trace:
  "map fst (trace (dragStart event w)) =
     map fst (trace w) @ PreventDefault #
       (case dragStartCallback w of
          Some cb \<Rightarrow> [DragStartCall cb (currentTarget event)]
        | None \<Rightarrow> [])"
  by (simp add: dragStart_def Let_def host_defs moveElementToCursor_def split: option.splits)

lemma dragStart_style_frame:
  "e \<noteq> currentTarget event \<or> p \<notin> set drag_properties \<Longrightarrow>
   style (host (dragStart event w)) e p = style (host w) e p"
  by (auto simp: dragStart_def Let_def host_defs moveElementToCursor_def drag_properties_def
        split: option.splits)

lemma dragMove_placed:
  "isMouseDown w \<Longrightarrow> dragElement w = Some el \<Longrightarrow> dragElementRect w = Some rect \<Longrightarrow>
   style (host (dragMove event w)) el ''left'' = Some (Px (clientX event - rect_width rect / 2)) \<and>
   style (host (dragMove event w)) el ''top'' = Some (Px (clientY event - rect_height rect / 2)) \<and>
   isDragging (dragMove event w)"
  by (simp add: dragMove_def Let_def host_defs moveElementToCursor_def split: option.splits)

lemma dragMove_style_frame:
  "dragElement w \<noteq> Some e \<or> p \<notin> set drag_properties \<Longrightarrow>
   style (host (dragMove event w)) e p = style (host w) e p"
  by (auto simp: dragMove_def Let_def host_defs moveElementToCursor_def drag_properties_def
        split: option.splits)

lemma configure_completes:
  assumes "selector_parses (host w) (attr_name (draggableAttribute (after_assignments opts w)))"
    and "body (host w) = Some b"
  shows "configureDragAndDrop opts w =
     (let w5 = after_assignments opts w;
          elements = filter (\<lambda>e. hasAttribute (host w) e (attr_name (draggableAttribute w5)))
                       (elems (document (host w)));
          w6 = (if elements = []
                then log_call (ConsoleWarn (''No elements with '' @ [CHR 0x27]
                        @ attr_name (draggableAttribute w5) @ [CHR 0x27] @ '' in the DOM'')) w5
                else w5)
      in (on_host (fold addEventListeners elements) w6)
           \<lparr>observers_created := Suc (observers_created w),
            observer := Some (observers_created w),
            subscriptions := subscriptions w @ [observers_created w]\<rparr>)"
proof -
  have b: "\<And>es d. body (fold addEventListeners es d) = body (d :: 'a dom)"
    by (subst fold_addEventListeners_frame) simp
  show ?thesis
    using assms
    by (simp add: configure_unfold querySelectorAll_def Let_def on_host_def log_call_def b
          after_assignments_frame)
qed

lemma configure_outcome:
  "(selector_parses (host w) (attr_name (draggableAttribute (configureDragAndDrop opts w))) \<and>
    body (host w) \<noteq> None \<longrightarrow>
      uncaught (configureDragAndDrop opts w) = uncaught w \<and>
      subscriptions (configureDragAndDrop opts w) = subscriptions w @ [observers_created w] \<and>
      observer (configureDragAndDrop opts w) = Some (observers_created w) \<and>
      observers_created (configureDragAndDrop opts w) = Suc (observers_created w)) \<and>
   (\<not> (selector_parses (host w) (attr_name (draggableAttribute (configureDragAndDrop opts w))) \<and>
       body (host w) \<noteq> None) \<longrightarrow>
      uncaught (configureDragAndDrop opts w) \<noteq> uncaught w \<and>
      subscriptions (configureDragAndDrop opts w) = subscriptions w)"
proof -
  have b: "\<And>es d. body (fold addEventListeners es d) = body (d :: 'a dom)"
    by (subst fold_addEventListeners_frame) simp
  have m: "draggableAttribute (configureDragAndDrop opts w) =
           draggableAttribute (after_assignments opts w)"
    by (simp add: configure_keeps_assignments)
  show ?thesis
    unfolding m
    by (simp add: configure_unfold querySelectorAll_def Let_def on_host_def log_call_def b
          after_assignments_frame split: option.splits)
qed

section \<open>Facts about runs\<close>

lemma step_session:
  "\<not> is_press i \<Longrightarrow> \<not> is_release i \<Longrightarrow>
   isMouseDown (step i w) = isMouseDown w \<and>
   dragElement (step i w) = dragElement w \<and>
   dragElementRect (step i w) = dragElementRect w"
  by (cases i) (simp_all add: configure_session dragMove_session mutationCallback_def on_host_def)

lemma run_session:
  "\<not> list_ex is_press inputs \<Longrightarrow> \<not> list_ex is_release inputs \<Longrightarrow>
   isMouseDown (run inputs w) = isMouseDown w \<and>
   dragElement (run inputs w) = dragElement w \<and>
   dragElementRect (run inputs w) = dragElementRect w"
  unfolding run_def by (induction inputs arbitrary: w) (simp_all add: step_session)

lemma step_pressed_has_subject:
  "pressed_has_subject w \<Longrightarrow> pressed_has_subject (step i w)"
  by (cases i)
     (simp_all add: pressed_has_subject_def configure_session dragMove_session
        dragStart_session dragEnd_released mutationCallback_def on_host_def)

lemma run_pressed_has_subject:
  "pressed_has_subject w \<Longrightarrow> pressed_has_subject (run inputs w)"
  unfolding run_def by (induction inputs arbitrary: w) (simp_all add: step_pressed_has_subject)

lemma step_isDragging: "\<not> is_press i \<Longrightarrow> isDragging w \<Longrightarrow> isDragging (step i w)"
  by (cases i) (simp_all add: configure_session dragEnd_isDragging mutationCallback_def on_host_def
        dragMove_def Let_def log_call_def split: option.splits)

lemma run_isDragging:
  "\<not> list_ex is_press inputs \<Longrightarrow> isDragging w \<Longrightarrow> isDragging (run inputs w)"
  unfolding run_def by (induction inputs arbitrary: w) (simp_all add: step_isDragging)

lemma step_subscriptions:
  "subscriptions (step i w) =
     subscriptions w @
       (if is_configure i \<and> uncaught (step i w) = uncaught w then [observers_created w]
        else [])"
proof (cases i)
  case (Configure opts)
  then show ?thesis using configure_outcome[of w opts] by auto
qed (simp_all add: dragEnd_subscriptions mutationCallback_def
       on_host_def dragStart_def dragMove_def Let_def log_call_def split: option.splits)

lemma run_subscriptions:
  "\<exists>new. subscriptions (run inputs w) = subscriptions w @ new \<and>
         length new = completed_configures inputs w"
  unfolding run_def
proof (induction inputs arbitrary: w)
  case Nil
  then show ?case by simp
next
  case (Cons i inputs)
  from Cons[of "step i w"] obtain new where
    "subscriptions (fold step inputs (step i w)) = subscriptions (step i w) @ new"
    "length new = completed_configures inputs (step i w)" by blast
  then show ?case by (simp add: step_subscriptions)
qed

section \<open>Facts about the watcher\<close>






section \<open>Facts about dispatch\<close>

lemma fold_matching:
  "fold (\<lambda>l s. if fst l = ty then F l s else s) ls s = fold F (filter (\<lambda>l. fst l = ty) ls) s"
  by (induction ls arbitrary: s) simp_all

lemma invoke_untracked:
  "filter (\<lambda>l. fst l = ty) (listeners (host w) a) = [] \<Longrightarrow> invoke_listeners ty event a w = w"
  by (simp add: invoke_listeners_def fold_matching)

lemma invoke_tracked:
  "filter (\<lambda>l. fst l = ''mousedown'') (listeners (host w) a) = [(''mousedown'', DragStart)] \<Longrightarrow>
   invoke_listeners ''mousedown'' event a w = dragStart (event\<lparr>currentTarget := a\<rparr>) w"
  by (simp add: invoke_listeners_def fold_matching handle_def)

lemma dispatch_fold:
  assumes "\<forall>a \<in> set path. filter (\<lambda>l. fst l = ''mousedown'') (listeners (host w) a)
              \<in> {[], [(''mousedown'', DragStart)]}"
    and "listeners (host s) = listeners (host w)"
  shows "fold (invoke_listeners ''mousedown'' event) path s =
         fold (\<lambda>a. dragStart (event\<lparr>currentTarget := a\<rparr>))
           (filter (\<lambda>a. (''mousedown'', DragStart) \<in> set (listeners (host w) a)) path) s"
  using assms
proof (induction path arbitrary: s)
  case Nil
  then show ?case by simp
next
  case (Cons a path)
  let ?f = "filter (\<lambda>l. fst l = ''mousedown'') (listeners (host w) a)"
  from Cons.prems(1) have "?f = [] \<or> ?f = [(''mousedown'', DragStart)]" by simp
  then show ?case
  proof
    assume e: "?f = []"
    then have "(''mousedown'', DragStart) \<notin> set (listeners (host w) a)"
      by (auto simp: filter_empty_conv)
    moreover have "invoke_listeners ''mousedown'' event a s = s"
      using e Cons.prems(2) by (simp add: invoke_untracked)
    ultimately show ?thesis using Cons by simp
  next
    assume t: "?f = [(''mousedown'', DragStart)]"
    then have "(''mousedown'', DragStart) \<in> set ?f" by simp
    then have m: "(''mousedown'', DragStart) \<in> set (listeners (host w) a)" by simp
    have i: "invoke_listeners ''mousedown'' event a s = dragStart (event\<lparr>currentTarget := a\<rparr>) s"
      using t Cons.prems(2) by (simp add: invoke_tracked)
    have "listeners (host (dragStart (event\<lparr>currentTarget := a\<rparr>) s)) = listeners (host w)"
      using Cons.prems(2) by (simp add: dragStart_listeners)
    with Cons.IH[of "dragStart (event\<lparr>currentTarget := a\<rparr>) s"] Cons.prems(1) m i
    show ?thesis by simp
  qed
qed

lemma fold_dragStart_subject:
  "dragElement (fold (\<lambda>a. dragStart (event\<lparr>currentTarget := a\<rparr>)) as s) =
     (case rev as of [] \<Rightarrow> dragElement s | a # _ \<Rightarrow> Some a)"
  by (induction as rule: rev_induct) (simp_all add: dragStart_session)

section \<open>Facts about the example\<close>

lemmas module_defs = dragStart_def dragMove_def moveElementToCursor_def hasAttribute_def
  attr_name_def truthy_string_def on_host_def log_call_def set_style_def clear_cssText_def
  Let_def

lemmas pointer_defs = hit_at_def dropzone_at_def drop_error_def elementFromPoint_def
  marked_ancestor_def

lemma demo_configured_eq:
  "demo_configured =
     initial_world
       \<lparr>observer := Some 0,
        dragMoveCallback := Some 11, dragStartCallback := Some 12, dragEndCallback := Some 13,
        dropzoneAttribute := Some ''data-drop'', draggableAttribute := Some ''data-drag'',
        host := demo_dom\<lparr>listeners :=
          (\<lambda>e. if e = 1 \<or> e = 6
                then [(''mousedown'', DragStart), (''mouseup'', DragEnd), (''mousemove'', DragMove)]
                else [])\<rparr>,
        observers_created := 1, subscriptions := [0]\<rparr>"
proof -
  have a: "after_assignments demo_options initial_world =
     initial_world\<lparr>dragMoveCallback := Some 11, dragStartCallback := Some 12,
        dragEndCallback := Some 13, dropzoneAttribute := Some ''data-drop'',
        draggableAttribute := Some ''data-drag''\<rparr>"
    by (simp add: after_assignments_def demo_options_def truthy_string_def)
  have h: "host initial_world = demo_dom" by (simp add: initial_world_def)
  have p: "selector_parses (host initial_world)
             (attr_name (draggableAttribute (after_assignments demo_options initial_world)))"
    by (simp add: a attr_name_def h demo_dom_def demo_parses_def)
  have b: "body (host initial_world) = Some 0"
    by (simp add: h demo_dom_def)
  have e: "filter (\<lambda>e. hasAttribute demo_dom e ''data-drag'')
             (elems (document demo_dom)) = [Suc 0, 6]"
    by (simp add: demo_dom_def hasAttribute_def)
  have l: "addEventListeners 6 (addEventListeners (Suc 0) demo_dom) = demo_dom\<lparr>listeners :=
          (\<lambda>e. if e = 1 \<or> e = 6
                then [(''mousedown'', DragStart), (''mouseup'', DragEnd), (''mousemove'', DragMove)]
                else [])\<rparr>"
    by (simp add: addEventListeners_alt drag_listeners_def with_listener_def demo_dom_def)
       (rule ext, simp)
  show ?thesis
    unfolding demo_configured_def configure_completes[OF p b]
    by (simp add: a e l h attr_name_def Let_def on_host_def) (simp add: initial_world_def)
qed

lemmas demo_defs = demo_dom_def demo_hit_test_def demo_parses_def initial_world_def
  demo_options_def demo_configured_eq demo_press_def demo_move_def demo_dragging_def

lemma demo_reconfigured_eq:
  "demo_reconfigured =
     demo_configured\<lparr>observer := Some 1, dropzoneAttribute := Some ''1x'',
                      observers_created := 2, subscriptions := [0, 1]\<rparr>"
proof -
  have a: "after_assignments demo_unparsable_options demo_configured =
     demo_configured\<lparr>dropzoneAttribute := Some ''1x''\<rparr>"
    by (simp add: after_assignments_def demo_unparsable_options_def truthy_string_def)
  have m: "draggableAttribute demo_configured = Some ''data-drag''"
    by (simp add: demo_configured_eq)
  have h: "selector_parses (host demo_configured) = demo_parses"
    by (simp add: demo_configured_eq demo_dom_def)
  have p: "selector_parses (host demo_configured)
     (attr_name (draggableAttribute (after_assignments demo_unparsable_options demo_configured)))"
    by (simp add: a m h attr_name_def demo_parses_def)
  have b: "body (host demo_configured) = Some 0"
    by (simp add: demo_configured_eq demo_dom_def)
  have e: "filter (\<lambda>e. hasAttribute (host demo_configured) e ''data-drag'')
             (elems (document (host demo_configured))) = [Suc 0, 6]"
    by (simp add: demo_configured_eq demo_dom_def hasAttribute_def)
  have l: "addEventListeners 6 (addEventListeners (Suc 0) (host demo_configured)) =
           host demo_configured"
    by (simp add: demo_configured_eq demo_dom_def addEventListeners_alt drag_listeners_def
          with_listener_def) (rule ext, simp)
  have c: "observers_created demo_configured = 1" "subscriptions demo_configured = [0]"
    by (simp_all add: demo_configured_eq)
  show ?thesis
    unfolding demo_reconfigured_def configure_completes[OF p b]
    by (simp add: a m e l c attr_name_def Let_def on_host_def)
qed

lemma demo_configured_doc:
  "document (host demo_configured) =
     [HTMLElement 0 [HTMLElement 1 [OtherNode 0, HTMLElement 5 []],
                     HTMLElement 2 [HTMLElement 3 []],
                     HTMLElement 4 [],
                     HTMLElement 6 []]]"
  by (simp add: demo_defs)

lemma demo_dragging_subject: "dragElement demo_dragging = Some 1"
  by (simp add: demo_defs module_defs)

lemma demo_dragging_no_error:
  "drop_error 1 demo_release demo_dragging = None \<and>
   drop_error 1 demo_release_outside demo_dragging = None"
  by (simp add: demo_defs demo_release_def demo_release_outside_def module_defs pointer_defs)

lemma demo_dragging_target:
  "drop_target 1 demo_release demo_dragging = Some 2 \<and>
   drop_target 1 demo_release_outside demo_dragging = None"
  by (simp add: demo_defs demo_release_def demo_release_outside_def module_defs pointer_defs
        drop_target_def)

lemma demo_dragging_tile_subject: "dragElement demo_dragging_tile = Some 6"
  by (simp add: demo_dragging_tile_def demo_press_tile_def demo_release_tile_def demo_defs
        module_defs)

lemma demo_dragging_tile_zone:
  "dropzone_at 6 demo_release_tile demo_dragging_tile = Some 6 \<and>
   drop_error 6 demo_release_tile demo_dragging_tile = Some HierarchyRequestError"
  by (simp add: demo_dragging_tile_def demo_press_tile_def demo_release_tile_def demo_defs
        module_defs pointer_defs)

lemma demo_dragging_unparsable_subject: "dragElement demo_dragging_unparsable = Some 1"
  by (simp add: demo_dragging_unparsable_def demo_reconfigured_eq) (simp add: demo_defs module_defs)

lemma demo_dragging_unparsable_error:
  "drop_error 1 demo_release demo_dragging_unparsable = Some SyntaxError"
  by (simp add: demo_dragging_unparsable_def demo_reconfigured_eq)
     (simp add: demo_release_def demo_defs module_defs pointer_defs)

section \<open>The properties\<close>

subsection \<open>Placement\<close>

text \<open>
  C1. At pointer-down the dragged element's inline \<^verbatim>\<open>left\<close> and \<^verbatim>\<open>top\<close> are set to
  (pointerX - rectWidth/2, pointerY - rectHeight/2), with the rectangle read from the
  layout at that moment. After any inputs that neither press nor release (moves,
  configuration, watcher batches, any change of the document, so also of the rectangles
  the layout would now report) the pointer is still pressed, the subject and the stored
  rectangle are the ones of the pointer-down, and a move sets \<^verbatim>\<open>left\<close> and \<^verbatim>\<open>top\<close> by the
  same formula from the pointer of that move and the stored rectangle, which it leaves
  as it is.
\<close>

theorem placement_uses_captured_rect:
  fixes w :: "('n::{minus,inverse,numeral}) world"
  assumes "\<not> list_ex is_press between" and "\<not> list_ex is_release between"
  shows "let el = currentTarget down;
             rect = boundingClientRect (host w) el;
             pressed = dragStart down w;
             later = run between pressed;
             moved = dragMove move later
         in style (host pressed) el ''left'' = Some (Px (clientX down - rect_width rect / 2)) \<and>
            style (host pressed) el ''top'' = Some (Px (clientY down - rect_height rect / 2)) \<and>
            isMouseDown later \<and> dragElement later = Some el \<and> dragElementRect later = Some rect \<and>
            style (host moved) el ''left'' = Some (Px (clientX move - rect_width rect / 2)) \<and>
            style (host moved) el ''top'' = Some (Px (clientY move - rect_height rect / 2)) \<and>
            dragElementRect moved = Some rect"
proof -
  let ?later = "run between (dragStart down w)"
  have s: "isMouseDown ?later \<and> dragElement ?later = Some (currentTarget down) \<and>
           dragElementRect ?later = Some (boundingClientRect (host w) (currentTarget down))"
    using run_session[OF assms, of "dragStart down w"] dragStart_session[of down w] by simp
  then show ?thesis
    using dragStart_placed[of down w] dragMove_placed[of ?later _ _ move]
      dragMove_session[of move ?later]
    by (simp add: Let_def)
qed

text \<open>In the example the press at (100, 100) puts element 1 at (75, 75); the layout
  then reports a 10 by 10 rectangle, and the move to (200, 200) still puts the element
  at (175, 175).\<close>

theorem placement_uses_captured_rect_witness:
  "\<not> list_ex is_press demo_between \<and> \<not> list_ex is_release demo_between \<and>
   style (host (dragStart demo_press demo_configured)) 1 ''left'' = Some (Px 75) \<and>
   style (host (dragStart demo_press demo_configured)) 1 ''top'' = Some (Px 75) \<and>
   rect_width (boundingClientRect
     (host (run demo_between (dragStart demo_press demo_configured))) 1) = 10 \<and>
   dragElementRect (run demo_between (dragStart demo_press demo_configured)) =
     Some \<lparr>rect_x = 75, rect_y = 75, rect_width = 50, rect_height = 50\<rparr> \<and>
   style (host (dragMove demo_move
     (run demo_between (dragStart demo_press demo_configured)))) 1 ''left'' = Some (Px 175) \<and>
   style (host (dragMove demo_move
     (run demo_between (dragStart demo_press demo_configured)))) 1 ''top'' = Some (Px 175)"
proof -
  have p: "\<not> list_ex is_press demo_between" and r: "\<not> list_ex is_release demo_between"
    by (simp_all add: demo_between_def)
  have rect: "boundingClientRect (host demo_configured) (Suc 0) =
      \<lparr>rect_x = 75, rect_y = 75, rect_width = 50, rect_height = 50\<rparr>"
    by (simp add: demo_defs)
  have ev: "currentTarget demo_press = 1" "clientX demo_press = 100" "clientY demo_press = 100"
    "clientX demo_move = 200" "clientY demo_move = 200"
    by (simp_all add: demo_press_def demo_move_def)
  have layout: "rect_width (boundingClientRect
     (host (run demo_between (dragStart demo_press demo_configured))) 1) = 10"
    by (simp add: run_def demo_between_def demo_relayout_def on_host_def)
  show ?thesis
    using p r layout
      placement_uses_captured_rect[OF p r, of demo_press demo_configured demo_move]
    by (simp add: Let_def rect ev)
qed

subsection \<open>Pointer-up\<close>

text \<open>
  C2, as stated, fails. In the example the tile 6 is pressed and released where it
  lies. The hit test under the pointer finds the tile itself (a style sheet keeps it
  rendered), its nearest inclusive ancestor bearing the dropzone marker is the tile, and
  a drop callback is configured; but \<^verbatim>\<open>appendChild\<close> refuses to put the tile into itself,
  so the handler ends at line 135: the callback is not called and the tile stays where
  it was.
\<close>

theorem dropzone_found_without_drop_counterexample:
  "dragElement demo_dragging_tile = Some 6 \<and>
   dragEndCallback demo_dragging_tile = Some 13 \<and>
   dropzone_at 6 demo_release_tile demo_dragging_tile = Some 6 \<and>
   map fst (trace (dragEnd demo_release_tile demo_dragging_tile)) =
     map fst (trace demo_dragging_tile) @ [PreventDefault] \<and>
   document (host (dragEnd demo_release_tile demo_dragging_tile)) =
     document (host demo_dragging_tile)"
proof -
  have cb: "dragEndCallback demo_dragging_tile = Some 13"
    by (simp add: demo_dragging_tile_def demo_defs module_defs)
  have e: "drop_error 6 demo_release_tile demo_dragging_tile = Some HierarchyRequestError"
    by (simp add: demo_dragging_tile_zone)
  show ?thesis
    using cb demo_dragging_tile_subject demo_dragging_tile_zone
      dragEnd_interrupted[OF demo_dragging_tile_subject e]
    by simp
qed

text \<open>
  C2, amended. On pointer-up with a drag subject the trace grows by \<^verbatim>\<open>preventDefault\<close>
  and, exactly when a drop callback is configured and the drop has a target, by one call
  of that callback with the subject and the target. The drop has a target when the hit
  test at the pointer (made after the subject was given \<^verbatim>\<open>display: none\<close>) finds an
  element with a nearest inclusive ancestor bearing the dropzone marker, the selector of
  the marker parses, and that ancestor is neither the subject nor inside it; the target
  is that ancestor. Then the subject becomes the last child of the target, so its parent
  is the target and not the element that was hit, and the callback, if any, is called
  on the document with the subject already moved. In every other case the node tree is
  unchanged and the callback is not called.
\<close>

theorem drop_iff_drop_target:
  fixes w :: "'n world"
  assumes sub: "dragElement w = Some el"
  shows "map fst (trace (dragEnd event w)) =
           map fst (trace w) @ PreventDefault #
             (case (drop_target el event w, dragEndCallback w) of
                (Some z, Some cb) \<Rightarrow> [DragEndCall cb el z]
              | _ \<Rightarrow> []) \<and>
         (case drop_target el event w of
            None \<Rightarrow> document (host (dragEnd event w)) = document (host w)
          | Some z \<Rightarrow>
              parent_of (document (host (dragEnd event w))) el = Some z \<and>
              (\<exists>cs. lastChild (document (host (dragEnd event w))) z = Some (HTMLElement el cs)) \<and>
              (\<forall>cb. dragEndCallback w = Some cb \<longrightarrow>
                 (\<exists>d. last (trace (dragEnd event w)) = (DragEndCall cb el z, d) \<and>
                      document d = document (host (dragEnd event w)))))"
proof (cases "drop_error el event w")
  case (Some err)
  then have t: "drop_target el event w = None" by (simp add: drop_target_cases)
  show ?thesis
    using dragEnd_interrupted[OF sub Some] by (simp add: t)
next
  case ok: None
  show ?thesis
  proof (cases "dropzone_at el event w")
    case None
    with ok have t: "drop_target el event w = None" by (simp add: drop_target_cases)
    show ?thesis
      unfolding dragEnd_nothing[OF sub ok None]
      by (simp add: t on_host_def clear_cssText_def after_hit_test_frame)
  next
    case (Some z)
    with ok have t: "drop_target el event w = Some z" by (simp add: drop_target_cases)
    from drop_on_drops(2,3)[OF ok Some]
    have zin: "z \<in> set (elems (document (host w)))"
      and notin: "el \<notin> set (ancestors_of (document (host w)) z)" by simp_all
    from dragEnd_drops[OF sub ok Some] obtain cs where E: "dragEnd event w =
           (on_host (clear_cssText el)
              (case dragEndCallback w of
                 Some cb \<Rightarrow>
                   log_call (DragEndCall cb el z)
                     (on_host (\<lambda>d. d\<lparr>document := add_last_child z (HTMLElement el cs)
                                      (remove_node el (document (host w)))\<rparr>)
                        (after_hit_test el w))
               | None \<Rightarrow>
                   on_host (\<lambda>d. d\<lparr>document := add_last_child z (HTMLElement el cs)
                                    (remove_node el (document (host w)))\<rparr>)
                     (after_hit_test el w)))
             \<lparr>dragElement := None, dragElementRect := None, startingMousePosition := None\<rparr>" ..
    let ?doc = "add_last_child z (HTMLElement el cs) (remove_node el (document (host w)))"
    have docE: "document (host (dragEnd event w)) = ?doc"
      unfolding E by (simp add: host_defs split: option.splits)
    have par: "parent_of ?doc el = Some z" using zin notin by (rule appended_parent)
    have lc: "lastChild ?doc z = Some (HTMLElement el cs)"
      using zin notin by (rule appended_lastChild)
    have tr: "map fst (trace (dragEnd event w)) =
           map fst (trace w) @ PreventDefault #
             (case dragEndCallback w of Some cb \<Rightarrow> [DragEndCall cb el z] | None \<Rightarrow> [])"
      unfolding E
      by (simp add: on_host_def log_call_def clear_cssText_def after_hit_test_frame
            split: option.splits)
    have lst: "\<forall>cb. dragEndCallback w = Some cb \<longrightarrow>
                 (\<exists>d. last (trace (dragEnd event w)) = (DragEndCall cb el z, d) \<and>
                      document d = ?doc)"
      unfolding E
      by (simp add: on_host_def log_call_def clear_cssText_def after_hit_test_frame
            split: option.splits)
    show ?thesis using t tr lst par lc unfolding docE
      by (simp split: option.splits)
  qed
qed

text \<open>In the example the release at (200, 200) hits element 3 inside the dropzone 2:
  element 1 becomes the last child of 2 and callback 13 is called with (1, 2). The
  release at (400, 200) hits element 4, which has no dropzone above it, and the release
  of the tile has no target.\<close>

theorem drop_iff_drop_target_witness:
  "dragElement demo_dragging = Some 1 \<and>
   drop_target 1 demo_release demo_dragging = Some 2 \<and>
   dragEndCallback demo_dragging = Some 13 \<and>
   map fst (trace (dragEnd demo_release demo_dragging)) =
     map fst (trace demo_dragging) @ [PreventDefault, DragEndCall 13 1 2] \<and>
   parent_of (document (host (dragEnd demo_release demo_dragging))) 1 = Some 2 \<and>
   (\<exists>cs. lastChild (document (host (dragEnd demo_release demo_dragging))) 2 =
           Some (HTMLElement 1 cs)) \<and>
   (\<exists>d. last (trace (dragEnd demo_release demo_dragging)) = (DragEndCall 13 1 2, d) \<and>
        document d = document (host (dragEnd demo_release demo_dragging))) \<and>
   drop_target 1 demo_release_outside demo_dragging = None \<and>
   map fst (trace (dragEnd demo_release_outside demo_dragging)) =
     map fst (trace demo_dragging) @ [PreventDefault] \<and>
   document (host (dragEnd demo_release_outside demo_dragging)) =
     document (host demo_dragging) \<and>
   dragElement demo_dragging_tile = Some 6 \<and>
   drop_target 6 demo_release_tile demo_dragging_tile = None \<and>
   map fst (trace (dragEnd demo_release_tile demo_dragging_tile)) =
     map fst (trace demo_dragging_tile) @ [PreventDefault]"
proof -
  have cb: "dragEndCallback demo_dragging = Some 13"
    by (simp add: demo_defs module_defs)
  have tile: "drop_target 6 demo_release_tile demo_dragging_tile = None"
    by (simp add: drop_target_cases demo_dragging_tile_zone)
  show ?thesis
    using demo_dragging_subject demo_dragging_target cb tile demo_dragging_tile_subject
      drop_iff_drop_target[OF demo_dragging_subject, of demo_release]
      drop_iff_drop_target[OF demo_dragging_subject, of demo_release_outside]
      drop_iff_drop_target[OF demo_dragging_tile_subject, of demo_release_tile]
    by simp
qed

text \<open>
  C3, as stated, fails. In the example the dropzone marker is set to \<^verbatim>\<open>1x\<close>, whose
  selector does not parse, and element 1 is dragged and released over element 3:
  \<^verbatim>\<open>closest\<close> throws at line 131, the handler ends there, and the drag subject is still
  set afterwards.
\<close>

theorem session_kept_after_throw_counterexample:
  "dragElement demo_dragging_unparsable = Some 1 \<and>
   dragElement (dragEnd demo_release demo_dragging_unparsable) = Some 1"
  using demo_dragging_unparsable_subject
    dragEnd_interrupted[OF demo_dragging_unparsable_subject demo_dragging_unparsable_error]
  by simp

text \<open>
  C3, amended. On pointer-up with a drag subject (the consumer's callbacks are calls in
  the trace and do not throw), when no host call of the handler throws, whether or not
  a drop succeeded: nothing is thrown, the subject's inline style is empty afterwards,
  and the subject, the stored rectangle and the starting pointer position are all reset
  to null. A host call throws when the hit test finds an element and the selector of
  the dropzone marker does not parse, or when the dropzone found is the subject or
  inside it; then the handler ends at the call, the exception leaves it, and the
  subject, the stored rectangle and the starting position stay as they are.
\<close>

theorem pointer_up_clears_session_unless_thrown:
  fixes w :: "'n world"
  assumes "dragElement w = Some el"
  shows "(drop_error el event w = None \<longrightarrow>
            dragElement (dragEnd event w) = None \<and>
            dragElementRect (dragEnd event w) = None \<and>
            startingMousePosition (dragEnd event w) = None \<and>
            style (host (dragEnd event w)) el = Map.empty \<and>
            uncaught (dragEnd event w) = uncaught w) \<and>
         (\<forall>err. drop_error el event w = Some err \<longrightarrow>
            uncaught (dragEnd event w) = uncaught w @ [err] \<and>
            dragElement (dragEnd event w) = Some el \<and>
            dragElementRect (dragEnd event w) = dragElementRect w \<and>
            startingMousePosition (dragEnd event w) = startingMousePosition w)"
  using dragEnd_cleanup[OF assms, of event] dragEnd_interrupted[OF assms, of event]
  by blast

theorem pointer_up_clears_session_unless_thrown_witness:
  "dragElement demo_dragging = Some 1 \<and>
   drop_error 1 demo_release demo_dragging = None \<and>
   dragElement (dragEnd demo_release demo_dragging) = None \<and>
   dragElementRect (dragEnd demo_release demo_dragging) = None \<and>
   startingMousePosition (dragEnd demo_release demo_dragging) = None \<and>
   style (host (dragEnd demo_release demo_dragging)) 1 = Map.empty \<and>
   uncaught (dragEnd demo_release demo_dragging) = uncaught demo_dragging \<and>
   drop_error 1 demo_release_outside demo_dragging = None \<and>
   dragElement (dragEnd demo_release_outside demo_dragging) = None \<and>
   style (host (dragEnd demo_release_outside demo_dragging)) 1 = Map.empty \<and>
   dragElement demo_dragging_tile = Some 6 \<and>
   drop_error 6 demo_release_tile demo_dragging_tile = Some HierarchyRequestError \<and>
   uncaught (dragEnd demo_release_tile demo_dragging_tile) =
     uncaught demo_dragging_tile @ [HierarchyRequestError] \<and>
   dragElement (dragEnd demo_release_tile demo_dragging_tile) = Some 6"
  using demo_dragging_subject demo_dragging_no_error
    demo_dragging_tile_subject demo_dragging_tile_zone
    pointer_up_clears_session_unless_thrown[OF demo_dragging_subject, of demo_release]
    pointer_up_clears_session_unless_thrown[OF demo_dragging_subject, of demo_release_outside]
    pointer_up_clears_session_unless_thrown[OF demo_dragging_tile_subject, of demo_release_tile]
  by simp

subsection \<open>Configuration\<close>

text \<open>
  C4. After \<^verbatim>\<open>configureDragAndDrop\<close> each of the five configuration variables holds the
  supplied value when that value is truthy (a callback that is not null, a string that
  is not empty) and its previous value otherwise.
\<close>

theorem configure_overwrites_supplied_fields:
  "dragMoveCallback (configureDragAndDrop opts w) =
     (if opt_dragMoveCallback opts \<noteq> None then opt_dragMoveCallback opts
      else dragMoveCallback w) \<and>
   dragStartCallback (configureDragAndDrop opts w) =
     (if opt_dragStartCallback opts \<noteq> None then opt_dragStartCallback opts
      else dragStartCallback w) \<and>
   dragEndCallback (configureDragAndDrop opts w) =
     (if opt_dragEndCallback opts \<noteq> None then opt_dragEndCallback opts
      else dragEndCallback w) \<and>
   dropzoneAttribute (configureDragAndDrop opts w) =
     (if truthy_string (opt_dropzoneAttribute opts) then opt_dropzoneAttribute opts
      else dropzoneAttribute w) \<and>
   draggableAttribute (configureDragAndDrop opts w) =
     (if truthy_string (opt_draggableAttribute opts) then opt_draggableAttribute opts
      else draggableAttribute w)"
  by (simp add: configure_keeps_assignments after_assignments_fields)

text \<open>A second call that supplies a start callback, a dropzone marker and an empty
  draggable marker changes the first two and nothing else.\<close>

theorem configure_overwrites_supplied_fields_witness:
  "dragMoveCallback (configureDragAndDrop demo_partial_options demo_configured) = Some 11 \<and>
   dragStartCallback (configureDragAndDrop demo_partial_options demo_configured) = Some 22 \<and>
   dragEndCallback (configureDragAndDrop demo_partial_options demo_configured) = Some 13 \<and>
   dropzoneAttribute (configureDragAndDrop demo_partial_options demo_configured) =
     Some ''data-zone'' \<and>
   draggableAttribute (configureDragAndDrop demo_partial_options demo_configured) =
     Some ''data-drag''"
proof -
  have before: "dragMoveCallback demo_configured = Some 11"
    "dragStartCallback demo_configured = Some 12"
    "dragEndCallback demo_configured = Some 13"
    "dropzoneAttribute demo_configured = Some ''data-drop''"
    "draggableAttribute demo_configured = Some ''data-drag''"
    by (simp_all add: demo_defs)
  show ?thesis
    using configure_overwrites_supplied_fields[of demo_partial_options demo_configured]
    by (simp add: before demo_partial_options_def truthy_string_def)
qed

text \<open>
  C7, as stated, fails: two calls of \<^verbatim>\<open>configureDragAndDrop\<close> leave two watchers
  observing the document.
\<close>

theorem single_watcher_counterexample:
  "\<not> length (subscriptions (configureDragAndDrop demo_options
                 (configureDragAndDrop demo_options initial_world))) \<le> 1"
proof -
  have m: "draggableAttribute (configureDragAndDrop demo_options demo_configured) =
           Some ''data-drag''"
    by (simp add: configure_keeps_assignments after_assignments_fields demo_options_def
          truthy_string_def)
  have p: "selector_parses (host demo_configured) ''data-drag''" "body (host demo_configured) = Some 0"
    "subscriptions demo_configured = [0]"
    by (simp_all add: demo_defs)
  show ?thesis
    using configure_outcome[of demo_configured demo_options]
    by (simp add: demo_configured_def[symmetric] m p attr_name_def)
qed

text \<open>
  C7, amended. A call of \<^verbatim>\<open>configureDragAndDrop\<close> completes when the selector of the
  draggable marker parses and the document has a body; otherwise it throws. Every call
  that completes creates a watcher of its own and subscribes it, and the module
  variable refers to that newest one; a call that throws subscribes none. No watcher is
  ever torn down: after any inputs the earlier subscriptions are all still there, and
  their number has grown by the number of configuration calls that completed.
\<close>

theorem one_watcher_per_completed_configure:
  fixes w :: "('n::{minus,inverse,numeral}) world"
  shows "length (subscriptions (run inputs w)) =
           length (subscriptions w) + completed_configures inputs w \<and>
         take (length (subscriptions w)) (subscriptions (run inputs w)) = subscriptions w \<and>
         (uncaught (configureDragAndDrop opts w) = uncaught w \<longleftrightarrow>
            selector_parses (host w)
              (attr_name (draggableAttribute (configureDragAndDrop opts w))) \<and>
            body (host w) \<noteq> None) \<and>
         (uncaught (configureDragAndDrop opts w) = uncaught w \<longrightarrow>
            observer (configureDragAndDrop opts w) = Some (observers_created w) \<and>
            observers_created (configureDragAndDrop opts w) = Suc (observers_created w) \<and>
            subscriptions (configureDragAndDrop opts w) =
              subscriptions w @ [observers_created w]) \<and>
         (uncaught (configureDragAndDrop opts w) \<noteq> uncaught w \<longrightarrow>
            subscriptions (configureDragAndDrop opts w) = subscriptions w)"
proof -
  from run_subscriptions[of inputs w] have
    "length (subscriptions (run inputs w)) =
           length (subscriptions w) + completed_configures inputs w \<and>
     take (length (subscriptions w)) (subscriptions (run inputs w)) = subscriptions w"
    by auto
  then show ?thesis using configure_outcome[of w opts] by blast
qed

text \<open>In the example a second call, with the dropzone marker \<^verbatim>\<open>1x\<close>, completes and
  leaves two subscriptions; a call with the draggable marker \<^verbatim>\<open>1x\<close> throws and leaves
  the one there was, and so does a call on a document without a body.\<close>

theorem one_watcher_per_completed_configure_witness:
  "length (subscriptions (run [Configure demo_options, MouseDown demo_press,
             Configure demo_unparsable_drag_options] initial_world)) = 1 \<and>
   uncaught demo_reconfigured = uncaught demo_configured \<and>
   observer demo_reconfigured = Some 1 \<and>
   subscriptions demo_reconfigured = [0, 1] \<and>
   uncaught (configureDragAndDrop demo_unparsable_drag_options demo_configured) \<noteq>
     uncaught demo_configured \<and>
   subscriptions (configureDragAndDrop demo_unparsable_drag_options demo_configured) = [0] \<and>
   uncaught (configureDragAndDrop demo_options demo_no_body) \<noteq> uncaught demo_no_body \<and>
   subscriptions (configureDragAndDrop demo_options demo_no_body) = []"
proof -
  let ?pressed = "dragStart demo_press demo_configured"
  let ?inputs = "[Configure demo_options, MouseDown demo_press,
                  Configure demo_unparsable_drag_options]"
  have m: "\<And>w. draggableAttribute (configureDragAndDrop demo_unparsable_drag_options w) =
           Some ''1x''"
    "\<And>w. draggableAttribute (configureDragAndDrop demo_options w) = Some ''data-drag''"
    by (simp_all add: configure_keeps_assignments after_assignments_fields
          demo_unparsable_drag_options_def demo_options_def truthy_string_def)
  have np: "\<not> demo_parses ''1x''" by (simp add: demo_parses_def)
  have h: "selector_parses (host demo_configured) = demo_parses"
    "selector_parses (host ?pressed) = demo_parses"
    "subscriptions demo_configured = [0]"
    "subscriptions initial_world = []"
    "body (host demo_no_body) = None" "subscriptions demo_no_body = []"
    by (simp_all add: demo_defs module_defs demo_no_body_def)
  have u: "uncaught demo_configured = uncaught initial_world"
    by (simp add: demo_defs)
  have bad: "uncaught (configureDragAndDrop demo_unparsable_drag_options ?pressed)
               \<noteq> uncaught ?pressed"
    using configure_outcome[of ?pressed demo_unparsable_drag_options]
    by (simp add: m h np attr_name_def)
  have count: "completed_configures ?inputs initial_world = 1"
    using bad u by (simp add: demo_configured_def[symmetric])
  have r: "length (subscriptions (run ?inputs initial_world)) = 1"
    using one_watcher_per_completed_configure[of ?inputs initial_world demo_options,
        THEN conjunct1]
    by (simp only: count h list.size)
  have re: "uncaught demo_reconfigured = uncaught demo_configured \<and>
            observer demo_reconfigured = Some 1 \<and> subscriptions demo_reconfigured = [0, 1]"
    by (simp add: demo_reconfigured_eq)
  have t2: "uncaught (configureDragAndDrop demo_unparsable_drag_options demo_configured) \<noteq>
              uncaught demo_configured \<and>
            subscriptions (configureDragAndDrop demo_unparsable_drag_options demo_configured)
              = [0]"
    using one_watcher_per_completed_configure[of "[]" demo_configured
        demo_unparsable_drag_options]
    by (simp add: m h np attr_name_def)
  have t3: "uncaught (configureDragAndDrop demo_options demo_no_body) \<noteq>
              uncaught demo_no_body \<and>
            subscriptions (configureDragAndDrop demo_options demo_no_body) = []"
    using one_watcher_per_completed_configure[of "[]" demo_no_body demo_options]
    by (simp add: h)
  show ?thesis using r re t2 t3 by simp
qed

subsection \<open>The has-moved flag\<close>

text \<open>
  C5. \<^verbatim>\<open>dragEnd\<close> leaves \<^verbatim>\<open>isDragging\<close> as it is; \<^verbatim>\<open>dragStart\<close> sets it to false, and
  no other input makes a true flag false. While the pointer is pressed a move sets it
  to true: in every state reached from one in which a pressed pointer has a subject (as
  in the initial state, where it is not pressed), and in particular after a press
  followed by inputs that neither press nor release. So after a press, a move and a
  release the flag is true, and it stays true until the next press.
\<close>

theorem moved_flag_outlives_pointer_up:
  fixes w :: "('n::{minus,inverse,numeral}) world"
  assumes "\<not> list_ex is_press before" and "\<not> list_ex is_release before"
    and "\<not> list_ex is_press after" and "\<not> list_ex is_press afterwards"
  shows "isDragging (dragEnd up w) = isDragging w \<and>
         \<not> isDragging (dragStart down w) \<and>
         (\<forall>i. \<not> is_press i \<and> isDragging w \<longrightarrow> isDragging (step i w)) \<and>
         (pressed_has_subject w \<and> isMouseDown (run inputs w) \<longrightarrow>
            isDragging (dragMove move (run inputs w))) \<and>
         isDragging (run afterwards (dragEnd up (run after (dragMove move
                       (run before (dragStart down w))))))"
proof -
  let ?later = "run before (dragStart down w)"
  have "isMouseDown ?later \<and> dragElement ?later = Some (currentTarget down) \<and>
        dragElementRect ?later = Some (boundingClientRect (host w) (currentTarget down))"
    using run_session[OF assms(1,2), of "dragStart down w"] dragStart_session[of down w]
    by simp
  then have "isDragging (dragMove move ?later)"
    using dragMove_placed[of ?later _ _ move] by simp
  then have "isDragging (run after (dragMove move ?later))"
    using assms(3) by (simp add: run_isDragging)
  then have "isDragging (dragEnd up (run after (dragMove move ?later)))"
    by (simp add: dragEnd_isDragging)
  then have last: "isDragging (run afterwards (dragEnd up (run after (dragMove move ?later))))"
    using assms(4) by (simp add: run_isDragging)
  have mv: "pressed_has_subject w \<and> isMouseDown (run inputs w) \<longrightarrow>
            isDragging (dragMove move (run inputs w))"
  proof
    assume a: "pressed_has_subject w \<and> isMouseDown (run inputs w)"
    then have "pressed_has_subject (run inputs w)" by (simp add: run_pressed_has_subject)
    with a obtain el rect where "dragElement (run inputs w) = Some el"
      "dragElementRect (run inputs w) = Some rect"
      by (auto simp: pressed_has_subject_def)
    with a show "isDragging (dragMove move (run inputs w))"
      using dragMove_placed[of "run inputs w" el rect move] by simp
  qed
  show ?thesis
    using last mv dragEnd_isDragging[of up w] dragStart_session[of down w] step_isDragging[of _ w]
    by blast
qed

text \<open>In the example: press, move, release over the dropzone, then a move, another
  release and a configuration call; the flag is still true.\<close>

theorem moved_flag_outlives_pointer_up_witness:
  "\<not> list_ex is_press demo_between \<and> \<not> list_ex is_release demo_between \<and>
   \<not> list_ex is_press demo_afterwards \<and>
   isDragging (dragEnd demo_release demo_dragging) = isDragging demo_dragging \<and>
   \<not> isDragging (dragStart demo_press demo_dragging) \<and>
   pressed_has_subject demo_configured \<and>
   isMouseDown (run [MouseDown demo_press] demo_configured) \<and>
   isDragging (dragMove demo_move (run [MouseDown demo_press] demo_configured)) \<and>
   isDragging (run demo_afterwards (dragEnd demo_release (run [] (dragMove demo_move
                 (run demo_between (dragStart demo_press demo_configured))))))"
proof -
  have h: "\<not> list_ex is_press demo_between" "\<not> list_ex is_release demo_between"
    "\<not> list_ex is_press ([] :: real input list)" "\<not> list_ex is_press demo_afterwards"
    by (simp_all add: demo_between_def demo_afterwards_def)
  have inv: "pressed_has_subject demo_configured"
    by (simp add: pressed_has_subject_def demo_defs module_defs)
  have pressed: "isMouseDown (run [MouseDown demo_press] demo_configured)"
    by (simp add: run_def dragStart_session)
  show ?thesis
    using h inv pressed
      moved_flag_outlives_pointer_up[OF h, of demo_release demo_dragging demo_press
        "[MouseDown demo_press]" demo_move]
      moved_flag_outlives_pointer_up[OF h, of demo_release demo_configured demo_press
        "[MouseDown demo_press]" demo_move]
    by simp
qed

subsection \<open>Moves without a press\<close>

text \<open>
  C9. A pointer-move handled while the pointer is not pressed, or while there is no drag
  subject or no stored rectangle, changes nothing: the module state, the document and
  the trace of callback calls are the same afterwards.
\<close>

theorem move_without_press_ignored:
  "\<not> isMouseDown w \<or> dragElement w = None \<or> dragElementRect w = None \<Longrightarrow>
   dragMove event w = w"
  by (auto simp: dragMove_def split: option.splits)

theorem move_without_press_ignored_witness:
  "\<not> isMouseDown demo_configured \<and> dragMove demo_move demo_configured = demo_configured"
proof -
  have h: "\<not> isMouseDown demo_configured"
    by (simp add: demo_defs module_defs)
  then show ?thesis
    using move_without_press_ignored[of demo_configured demo_move] by simp
qed

subsection \<open>The watcher\<close>



subsection \<open>Inline style\<close>

text \<open>
  C8, as stated, fails: the inline \<^verbatim>\<open>color\<close> that element 1 of the example has before the
  drag (press at (100, 100), move to (200, 200), release there) is gone after the
  pointer-up.
\<close>

theorem other_styles_kept_counterexample:
  "style (host (dragEnd demo_release demo_dragging)) 1 ''color''
     \<noteq> style (host demo_configured) 1 ''color''"
proof -
  have e: "drop_error 1 demo_release demo_dragging = None"
    using demo_dragging_no_error by simp
  have c: "style (host demo_configured) (Suc 0) ''color'' = Some (Keyword ''red'')"
    by (simp add: demo_defs)
  show ?thesis
    using dragEnd_cleanup[OF demo_dragging_subject e] by (simp add: c)
qed

text \<open>
  C8, amended. At drag start and on every move the module assigns only the inline
  properties \<^verbatim>\<open>width\<close>, \<^verbatim>\<open>height\<close>, \<^verbatim>\<open>top\<close>, \<^verbatim>\<open>left\<close> and \<^verbatim>\<open>position\<close> of the
  dragged element: every other inline property of it, and the inline style of every
  other element, is as before. The pointer-up handler leaves the inline style of every
  other element as it is. When no host call in it throws, it leaves the dragged element
  with no inline declaration at all: what the element had before the drag is removed
  with the rest. When a host call throws, the reset is not reached, and every inline
  property of the dragged element other than \<^verbatim>\<open>display\<close> is as it was at the pointer-up.
\<close>

theorem drag_style_footprint:
  fixes w :: "('n::{minus,inverse,numeral}) world"
  shows "(e \<noteq> currentTarget event \<or> p \<notin> set drag_properties \<longrightarrow>
            style (host (dragStart event w)) e p = style (host w) e p) \<and>
         (dragElement w \<noteq> Some e \<or> p \<notin> set drag_properties \<longrightarrow>
            style (host (dragMove event w)) e p = style (host w) e p) \<and>
         (dragElement w \<noteq> Some e \<longrightarrow>
            style (host (dragEnd event w)) e = style (host w) e) \<and>
         (dragElement w = Some e \<and> drop_error e event w = None \<longrightarrow>
            style (host (dragEnd event w)) e = Map.empty) \<and>
         (dragElement w = Some e \<and> drop_error e event w \<noteq> None \<and> p \<noteq> ''display'' \<longrightarrow>
            style (host (dragEnd event w)) e p = style (host w) e p)"
  using dragStart_style_frame[of e event p w] dragMove_style_frame[of w e p event]
    dragEnd_style_other[of w e event] dragEnd_cleanup[of w e event]
    dragEnd_interrupted[of w e event _ p]
  by blast

theorem drag_style_footprint_witness:
  "''color'' \<notin> set drag_properties \<and>
   style (host (dragStart demo_press demo_configured)) 1 ''color'' =
     style (host demo_configured) 1 ''color'' \<and>
   style (host (dragMove demo_move (dragStart demo_press demo_configured))) 1 ''color'' =
     style (host (dragStart demo_press demo_configured)) 1 ''color'' \<and>
   dragElement demo_dragging = Some 1 \<and>
   drop_error 1 demo_release demo_dragging = None \<and>
   style (host (dragEnd demo_release demo_dragging)) 1 = Map.empty \<and>
   style (host (dragEnd demo_release demo_dragging)) 2 = style (host demo_dragging) 2 \<and>
   dragElement demo_dragging_unparsable = Some 1 \<and>
   drop_error 1 demo_release demo_dragging_unparsable = Some SyntaxError \<and>
   style (host (dragEnd demo_release demo_dragging_unparsable)) 1 ''color'' =
     style (host demo_dragging_unparsable) 1 ''color''"
proof -
  have c: "''color'' \<notin> set drag_properties" by (simp add: drag_properties_def)
  show ?thesis
    using c demo_dragging_subject demo_dragging_no_error demo_dragging_unparsable_subject
      demo_dragging_unparsable_error
      drag_style_footprint[of 1 demo_press "''color''" demo_configured]
      drag_style_footprint[of 1 demo_move "''color''" "dragStart demo_press demo_configured"]
      drag_style_footprint[of 1 demo_release "''color''" demo_dragging]
      drag_style_footprint[of 2 demo_release "''color''" demo_dragging]
      drag_style_footprint[of 1 demo_release "''color''" demo_dragging_unparsable]
    by simp
qed

subsection \<open>The drag subject\<close>

text \<open>
  C10. \<^verbatim>\<open>dragStart\<close> records the event's current target as the drag subject and passes
  it to the drag-start callback, whatever the event's target is. When a press is
  dispatched at a target, and each element on the path from the target to the root has
  no press listener or only the module's, the handler runs once for each tracked
  element on the path, in order, with that element as current target: the subject is a
  tracked element on the path (the outermost one) and, when the target is not tracked,
  not the target.
\<close>

theorem drag_subject_is_current_target:
  fixes w :: "('n::{minus,inverse,numeral}) world"
  assumes "list_all (press_tracking_only w) (ancestors_of (document (host w)) (target event))"
  shows "dragElement (dragStart event w) = Some (currentTarget event) \<and>
         map fst (trace (dragStart event w)) =
           map fst (trace w) @ PreventDefault #
             (case dragStartCallback w of
                Some cb \<Rightarrow> [DragStartCall cb (currentTarget event)]
              | None \<Rightarrow> []) \<and>
         dispatchEvent ''mousedown'' event w =
           fold (\<lambda>a. dragStart (event\<lparr>currentTarget := a\<rparr>)) (tracked_on_path event w) w \<and>
         dragElement (dispatchEvent ''mousedown'' event w) =
           (case rev (tracked_on_path event w) of
              [] \<Rightarrow> dragElement w
            | a # _ \<Rightarrow> Some a)"
proof -
  from assms have "\<forall>a \<in> set (ancestors_of (document (host w)) (target event)).
      filter (\<lambda>l. fst l = ''mousedown'') (listeners (host w) a)
        \<in> {[], [(''mousedown'', DragStart)]}"
    by (auto simp: list_all_iff press_tracking_only_def press_listeners_def)
  then have d: "dispatchEvent ''mousedown'' event w =
           fold (\<lambda>a. dragStart (event\<lparr>currentTarget := a\<rparr>)) (tracked_on_path event w) w"
    unfolding dispatchEvent_def tracked_on_path_def
    by (rule dispatch_fold) simp
  show ?thesis
    unfolding d using dragStart_session[of event w] dragStart_trace[of event w]
    by (simp add: fold_dragStart_subject)
qed

text \<open>In the example a press on element 5, which lies inside the tracked element 1,
  makes 1 the subject and calls the start callback 12 with it.\<close>

theorem drag_subject_is_current_target_witness:
  "list_all (press_tracking_only demo_configured)
     (ancestors_of (document (host demo_configured)) (target demo_press_inside)) \<and>
   target demo_press_inside = 5 \<and>
   tracked_on_path demo_press_inside demo_configured = [1] \<and>
   dragElement (dispatchEvent ''mousedown'' demo_press_inside demo_configured) = Some 1 \<and>
   map fst (trace (dispatchEvent ''mousedown'' demo_press_inside demo_configured)) =
     map fst (trace demo_configured) @ [PreventDefault, DragStartCall 12 1]"
proof -
  have l: "listeners (host demo_configured) =
      (\<lambda>e. if e = 1 \<or> e = 6 then [(''mousedown'', DragStart), (''mouseup'', DragEnd),
                                   (''mousemove'', DragMove)] else [])"
    by (simp add: demo_defs)
  have t: "target demo_press_inside = 5" by (simp add: demo_press_inside_def)
  have h: "list_all (press_tracking_only demo_configured)
     (ancestors_of (document (host demo_configured)) (target demo_press_inside))"
    by (simp add: t demo_configured_doc press_tracking_only_def press_listeners_def l)
  have p: "tracked_on_path demo_press_inside demo_configured = [1]"
    by (simp add: tracked_on_path_def t demo_configured_doc l)
  have cb: "dragStartCallback demo_configured = Some 12"
    by (simp add: demo_defs module_defs)
  show ?thesis
    using h t p drag_subject_is_current_target[OF h]
      dragStart_trace[of "demo_press_inside\<lparr>currentTarget := 1\<rparr>" demo_configured]
      dragStart_session[of "demo_press_inside\<lparr>currentTarget := 1\<rparr>" demo_configured]
    by (simp add: cb)
qed

end
